theory Spec2Isabelle
  imports Complex_Main
begin

section \<open>GPS DriftCast: the descent and drift simulation\<close>

text \<open>
  A shallow embedding of the drift engine of GPS DriftCast: \<^verbatim>\<open>wind.js\<close>, \<^verbatim>\<open>launch.js\<close>,
  \<^verbatim>\<open>drift_simulation.js\<close>, \<^verbatim>\<open>rocket.js\<close> and \<^verbatim>\<open>calculateLandingPlots\<close> in \<^verbatim>\<open>main.js\<close>,
  with the checks before its loop and the loop over the hours.

  Numbers. In the simulation JavaScript numbers are modelled as \<^typ>\<open>real\<close>: arithmetic is
  exact, and neither rounding nor the infinities are represented. \<^verbatim>\<open>NaN\<close> is represented
  only where the code tests for it on a value that can really be \<^verbatim>\<open>NaN\<close> when the test
  runs: the descent rates of a rocket, which \<^verbatim>\<open>rocket.js\<close> stores unchecked, and the
  numbers parsed from the fields of the page (type \<open>jsnum\<close> below). The altitude, speed and
  direction of a wind sample, the fields of a weathercock entry and the altitude of a path
  point are checked by their constructors, which throw on \<^verbatim>\<open>NaN\<close>; those fields are plain
  reals. One function, \<^verbatim>\<open>getWindBandPercentage\<close>, is also given over numbers with \<^verbatim>\<open>NaN\<close>,
  the infinities and overflow (type \<open>number\<close> below), and related to its version over the
  reals.

  Exceptions. A thrown \<^verbatim>\<open>TypeError\<close> is the value \<open>Inl TypeError\<close>; a function that can throw
  returns \<open>error + 'a\<close>.
\<close>

subsection \<open>Data model\<close>

datatype error = TypeError

datatype jsnum = NaN | Num real

text \<open>\<^verbatim>\<open>GeoLocation\<close> (\<^verbatim>\<open>geo.js\<close>): a pair of coordinates in degrees.\<close>

record GeoLocation =
  latitude :: real
  longitude :: real

text \<open>\<^verbatim>\<open>WindAtAltitude\<close> (\<^verbatim>\<open>wind.js\<close>): altitude in feet, speed in knots, direction in degrees.\<close>

record WindAtAltitude =
  altitude :: real
  windSpeed :: real
  windDirection :: real

text \<open>
  \<^verbatim>\<open>WeathercockWindData\<close> (\<^verbatim>\<open>wind.js\<close>). Its field \<^verbatim>\<open>windSpeed\<close> is named \<open>wcWindSpeed\<close> here,
  since a wind sample has a field of the same name.
\<close>

record WeathercockWindData =
  wcWindSpeed :: real
  upwindDistance :: real
  apogee :: real

text \<open>
  \<^verbatim>\<open>DescentData\<close> (\<^verbatim>\<open>launch.js\<close>); the fields \<^verbatim>\<open>altitude\<close>, \<^verbatim>\<open>windSpeed\<close> and
  \<^verbatim>\<open>windDirection\<close> carry the prefix \<open>step\<close>.
\<close>

record DescentData =
  stepAltitude :: real
  descentRate :: real
  stepWindSpeed :: real
  stepWindDirection :: real

text \<open>
  The constructor of \<^verbatim>\<open>DescentData\<close> throws a \<^verbatim>\<open>TypeError\<close> when one of its arguments is
  \<^verbatim>\<open>NaN\<close>. Of the four, only the rate can be.
\<close>

definition newDescentData :: "real \<Rightarrow> jsnum \<Rightarrow> real \<Rightarrow> real \<Rightarrow> error + DescentData" where
  "newDescentData alt rate speed dir =
     (case rate of
        NaN \<Rightarrow> Inl TypeError
      | Num r \<Rightarrow> Inr \<lparr>stepAltitude = alt, descentRate = r, stepWindSpeed = speed,
                       stepWindDirection = dir\<rparr>)"

subsection \<open>Wind bands (\<^verbatim>\<open>wind.js\<close>)\<close>

text \<open>
  \<^verbatim>\<open>getWindBandPercentage(rocketAltitude, windData, floorIndex)\<close>. The index is an integer that
  may be negative; both array reads happen after the bounds check.
\<close>

definition getWindBandPercentage :: "real \<Rightarrow> WindAtAltitude list \<Rightarrow> int \<Rightarrow> real" where
  "getWindBandPercentage rocketAltitude windData floorIndex =
     (if floorIndex < 0 \<or> floorIndex + 1 \<ge> int (length windData) then - 1
      else
        let altitudeFloor = altitude (windData ! nat floorIndex);
            altitudeCeiling = altitude (windData ! nat (floorIndex + 1))
        in if rocketAltitude < altitudeFloor \<or> rocketAltitude > altitudeCeiling then - 1
           else
             let rangeHeight = \<bar>altitudeCeiling - altitudeFloor\<bar>
             in if 0 = rangeHeight then - 1
                else \<bar>rocketAltitude - altitudeFloor\<bar> / rangeHeight)"

text \<open>\<^verbatim>\<open>getAverageWindSpeed(bandPercentage, windData, floorIndex)\<close>.\<close>

definition getAverageWindSpeed :: "real \<Rightarrow> WindAtAltitude list \<Rightarrow> int \<Rightarrow> real" where
  "getAverageWindSpeed bandPercentage windData floorIndex =
     (if bandPercentage < 0 \<or> bandPercentage > 1 then - 1
      else if floorIndex < 0 \<or> floorIndex + 1 \<ge> int (length windData) then - 1
      else
        let speedFloor = windSpeed (windData ! nat floorIndex);
            speedRange = windSpeed (windData ! nat (floorIndex + 1)) - speedFloor;
            speedAtAltitude = speedFloor + (bandPercentage * speedRange)
        in (speedFloor + speedAtAltitude) / 2)"

text \<open>\<^verbatim>\<open>getAverageWindDirection(bandPercentage, windData, floorIndex)\<close>.\<close>

definition getAverageWindDirection :: "real \<Rightarrow> WindAtAltitude list \<Rightarrow> int \<Rightarrow> real" where
  "getAverageWindDirection bandPercentage windData floorIndex =
     (if bandPercentage < 0 \<or> bandPercentage > 1 then - 1
      else if floorIndex < 0 \<or> floorIndex + 1 \<ge> int (length windData) then - 1
      else
        let directionA = windDirection (windData ! nat floorIndex);
            targetDirection = directionA
              + (bandPercentage * (windDirection (windData ! nat (floorIndex + 1)) - directionA));
            averageDirection = directionA + targetDirection
        in if \<bar>directionA - targetDirection\<bar> < 180 then averageDirection / 2
           else
             let averageDirection = (averageDirection - 360) / 2
             in if averageDirection < 0 then averageDirection + 360 else averageDirection)"

text \<open>
  The integration loops of \<^verbatim>\<open>calculateLandingPlots\<close> and \<^verbatim>\<open>driftSimulation\<close> average the
  directions of two consecutive descent steps with the same code, written inline;
  \<open>previousDirection\<close> is \<^verbatim>\<open>descentList[x - 1].windDirection\<close> and \<open>currentDirection\<close> is
  \<^verbatim>\<open>descentList[x].windDirection\<close>.
\<close>

definition stepAverageDirection :: "real \<Rightarrow> real \<Rightarrow> real" where
  "stepAverageDirection previousDirection currentDirection =
     (let windDirection = currentDirection + previousDirection
      in if \<bar>previousDirection - currentDirection\<bar> < 180 then windDirection / 2
         else
           let windDirection = (windDirection - 360) / 2
           in if windDirection < 0 then windDirection + 360 else windDirection)"

text \<open>
  The specification's circular mean of a floor direction \<open>d0\<close> and a target direction \<open>d1\<close>,
  written from its words: the plain mean when the two are less than 180 degrees apart,
  otherwise the mean taken across the seam and brought back into range.
\<close>

definition circularMean :: "real \<Rightarrow> real \<Rightarrow> real" where
  "circularMean d0 d1 =
     (if \<bar>d0 - d1\<bar> < 180 then (d0 + d1) / 2
      else if ((d0 + d1) - 360) / 2 < 0 then ((d0 + d1) - 360) / 2 + 360
      else ((d0 + d1) - 360) / 2)"

text \<open>A two-sample profile, for evaluating the band functions on given directions.\<close>

definition bandOf :: "real \<Rightarrow> real \<Rightarrow> WindAtAltitude list" where
  "bandOf d0 d1 =
     [\<lparr>altitude = 0, windSpeed = 0, windDirection = d0\<rparr>,
      \<lparr>altitude = 1000, windSpeed = 0, windDirection = d1\<rparr>]"

subsection \<open>The band fraction over the numbers of JavaScript\<close>

text \<open>
  A function over the reals cannot return \<^verbatim>\<open>NaN\<close> or \<^verbatim>\<open>Infinity\<close>, and one whose index is an
  integer cannot be asked for the sample at index 0.5. To say when \<^verbatim>\<open>getWindBandPercentage\<close>
  does neither, the function is given a second time, over the numbers of JavaScript:
  \<^verbatim>\<open>NaN\<close>, the two infinities and the finite numbers. A finite result that is out of the
  range of a double becomes an infinity (\<open>maxRange\<close> is the least magnitude that rounds to
  one); rounding within the range and the sign of zero are not represented.
\<close>

datatype number = NotANumber | NegativeInfinity | PositiveInfinity | Finite real

definition maxRange :: real where
  "maxRange = 2 ^ 1024 - 2 ^ 970"

definition toNumber :: "real \<Rightarrow> number" where
  "toNumber r =
     (if maxRange \<le> r then PositiveInfinity
      else if r \<le> - maxRange then NegativeInfinity
      else Finite r)"

text \<open>
  The operators \<^verbatim>\<open><\<close>, \<^verbatim>\<open>>\<close>, \<^verbatim>\<open>>=\<close>, \<^verbatim>\<open>==\<close>, \<^verbatim>\<open>+\<close>, \<^verbatim>\<open>-\<close> and \<^verbatim>\<open>/\<close> on numbers, and \<^verbatim>\<open>Math.abs\<close>.
  Every comparison with \<^verbatim>\<open>NaN\<close> is false.
\<close>

fun numberLess :: "number \<Rightarrow> number \<Rightarrow> bool" where
  "numberLess (Finite a) (Finite b) = (a < b)"
| "numberLess (Finite a) PositiveInfinity = True"
| "numberLess NegativeInfinity (Finite b) = True"
| "numberLess NegativeInfinity PositiveInfinity = True"
| "numberLess x y = False"

definition numberGreater :: "number \<Rightarrow> number \<Rightarrow> bool" where
  "numberGreater x y = numberLess y x"

definition numberGreaterEq :: "number \<Rightarrow> number \<Rightarrow> bool" where
  "numberGreaterEq x y \<longleftrightarrow> x \<noteq> NotANumber \<and> y \<noteq> NotANumber \<and> \<not> numberLess x y"

definition numberEquals :: "number \<Rightarrow> number \<Rightarrow> bool" where
  "numberEquals x y \<longleftrightarrow> x \<noteq> NotANumber \<and> x = y"

fun numberPlus :: "number \<Rightarrow> number \<Rightarrow> number" where
  "numberPlus (Finite a) (Finite b) = toNumber (a + b)"
| "numberPlus NotANumber y = NotANumber"
| "numberPlus x NotANumber = NotANumber"
| "numberPlus PositiveInfinity NegativeInfinity = NotANumber"
| "numberPlus NegativeInfinity PositiveInfinity = NotANumber"
| "numberPlus PositiveInfinity y = PositiveInfinity"
| "numberPlus NegativeInfinity y = NegativeInfinity"
| "numberPlus (Finite a) y = y"

fun numberMinus :: "number \<Rightarrow> number \<Rightarrow> number" where
  "numberMinus (Finite a) (Finite b) = toNumber (a - b)"
| "numberMinus NotANumber y = NotANumber"
| "numberMinus x NotANumber = NotANumber"
| "numberMinus PositiveInfinity PositiveInfinity = NotANumber"
| "numberMinus NegativeInfinity NegativeInfinity = NotANumber"
| "numberMinus PositiveInfinity y = PositiveInfinity"
| "numberMinus NegativeInfinity y = NegativeInfinity"
| "numberMinus (Finite a) PositiveInfinity = NegativeInfinity"
| "numberMinus (Finite a) NegativeInfinity = PositiveInfinity"

fun numberAbs :: "number \<Rightarrow> number" where
  "numberAbs (Finite a) = Finite \<bar>a\<bar>"
| "numberAbs NotANumber = NotANumber"
| "numberAbs x = PositiveInfinity"

fun numberDivide :: "number \<Rightarrow> number \<Rightarrow> number" where
  "numberDivide (Finite a) (Finite b) =
     (if b = 0 then
        (if a = 0 then NotANumber else if 0 < a then PositiveInfinity else NegativeInfinity)
      else toNumber (a / b))"
| "numberDivide NotANumber y = NotANumber"
| "numberDivide x NotANumber = NotANumber"
| "numberDivide (Finite a) y = Finite 0"
| "numberDivide PositiveInfinity (Finite b) =
     (if 0 \<le> b then PositiveInfinity else NegativeInfinity)"
| "numberDivide NegativeInfinity (Finite b) =
     (if 0 \<le> b then NegativeInfinity else PositiveInfinity)"
| "numberDivide x y = NotANumber"

text \<open>
  \<^verbatim>\<open>array[index]\<close>: the element at an index that is a whole number within the array, and
  \<^verbatim>\<open>undefined\<close> (here \<open>None\<close>) at any other number.
\<close>

definition element :: "'a list \<Rightarrow> number \<Rightarrow> 'a option" where
  "element array index =
     (case index of
        Finite x \<Rightarrow>
          if 0 \<le> x \<and> x < real (length array) \<and> x = of_int \<lfloor>x\<rfloor>
          then Some (array ! nat \<lfloor>x\<rfloor>)
          else None
      | _ \<Rightarrow> None)"

text \<open>
  \<^verbatim>\<open>getWindBandPercentage(rocketAltitude, windData, floorIndex)\<close> once more. The function reads
  nothing of a sample but its altitude, and \<open>windData\<close> is here the list of the altitudes of
  the samples; the constructor of \<^verbatim>\<open>WindAtAltitude\<close> refuses \<^verbatim>\<open>NaN\<close> but not an infinity.
  Reading \<^verbatim>\<open>altitude\<close> of \<^verbatim>\<open>undefined\<close> throws a \<^verbatim>\<open>TypeError\<close>.
\<close>

definition getWindBandPercentageJS :: "number \<Rightarrow> number list \<Rightarrow> number \<Rightarrow> error + number" where
  "getWindBandPercentageJS rocketAltitude windData floorIndex =
     (if numberLess floorIndex (Finite 0)
         \<or> numberGreaterEq (numberPlus floorIndex (Finite 1)) (Finite (real (length windData)))
      then Inr (Finite (- 1))
      else
        case element windData floorIndex of
          None \<Rightarrow> Inl TypeError
        | Some altitudeFloor \<Rightarrow>
            (case element windData (numberPlus floorIndex (Finite 1)) of
               None \<Rightarrow> Inl TypeError
             | Some altitudeCeiling \<Rightarrow>
                 if numberLess rocketAltitude altitudeFloor
                    \<or> numberGreater rocketAltitude altitudeCeiling
                 then Inr (Finite (- 1))
                 else
                   let rangeHeight = numberAbs (numberMinus altitudeCeiling altitudeFloor)
                   in if numberEquals (Finite 0) rangeHeight then Inr (Finite (- 1))
                      else Inr (numberDivide
                                  (numberAbs (numberMinus rocketAltitude altitudeFloor))
                                  rangeHeight)))"

subsection \<open>Geodesy (\<^verbatim>\<open>geo.js\<close>)\<close>

text \<open>
  \<^verbatim>\<open>geo.js\<close> is not among the sources. The three functions of it that the simulation calls are
  parameters of the model. In the source a move function overwrites the coordinates of the
  location object it is given; here it returns the new coordinates, from the old ones, a
  distance in meters and a bearing in degrees.
\<close>

record geodesy =
  moveAlongBearing :: "GeoLocation \<Rightarrow> real \<Rightarrow> real \<Rightarrow> GeoLocation"
  moveAlongBearingKilometers :: "GeoLocation \<Rightarrow> real \<Rightarrow> real \<Rightarrow> GeoLocation"
  feetToMeters :: "real \<Rightarrow> real"

subsection \<open>Drift of one step (\<^verbatim>\<open>wind.js\<close>)\<close>

text \<open>
  \<^verbatim>\<open>driftWithWind(rocketLocation, windSpeed, windDirection, decentRate, descentDistance)\<close>.
  The result is the location after the call and the returned value: \<open>None\<close> is
  \<^verbatim>\<open>undefined\<close>, returned by the guard without touching the location. A primed name is
  the source's variable of that name, where the plain name is a field of a record here.
\<close>

definition driftWithWind ::
  "geodesy \<Rightarrow> GeoLocation \<Rightarrow> real \<Rightarrow> real \<Rightarrow> jsnum \<Rightarrow> real \<Rightarrow> GeoLocation \<times> real option" where
  "driftWithWind g rocketLocation windSpeed' windDirection' decentRate descentDistance =
     (case decentRate of
        NaN \<Rightarrow> (rocketLocation, None)
      | Num rate \<Rightarrow>
          if 0 = rate then (rocketLocation, None)
          else
            let decentRate = \<bar>rate\<bar>;
                decentDuration = descentDistance / decentRate;
                driftDistance = decentDuration * (windSpeed' * 1.68781);
                windDirection' = (if windDirection' < 180 then windDirection' + 180
                                  else windDirection' - 180)
            in (moveAlongBearingKilometers g rocketLocation (feetToMeters g driftDistance)
                  windDirection',
                Some driftDistance))"

subsection \<open>The simulation result (\<^verbatim>\<open>launch.js\<close>)\<close>

record LaunchPathPoint =
  pointAltitude :: real
  location :: GeoLocation

text \<open>
  The constructor of \<^verbatim>\<open>LaunchPathPoint\<close> stores a new \<^verbatim>\<open>GeoLocation\<close> built from the
  coordinates of the one it is given.
\<close>

definition newLaunchPathPoint :: "real \<Rightarrow> GeoLocation \<Rightarrow> LaunchPathPoint" where
  "newLaunchPathPoint alt loc =
     \<lparr>pointAltitude = alt, location = \<lparr>latitude = latitude loc, longitude = longitude loc\<rparr>\<rparr>"

record LaunchSimulationData =
  time :: int
  launchPath :: "LaunchPathPoint list"
  elevation :: real

definition newLaunchSimulationData :: "real \<Rightarrow> int \<Rightarrow> LaunchSimulationData" where
  "newLaunchSimulationData ele hour =
     \<lparr>time = hour, launchPath = [], elevation = (if ele \<ge> 0 then ele else 0)\<rparr>"

definition addLaunchPathPoint ::
  "LaunchSimulationData \<Rightarrow> real \<Rightarrow> GeoLocation \<Rightarrow> LaunchSimulationData" where
  "addLaunchPathPoint sim alt launchPathPoint =
     sim\<lparr>launchPath := launchPath sim @ [newLaunchPathPoint alt launchPathPoint]\<rparr>"

definition getLandingLocation :: "LaunchSimulationData \<Rightarrow> GeoLocation option" where
  "getLandingLocation sim =
     (if 0 = length (launchPath sim) then None
      else Some (location (launchPath sim ! (length (launchPath sim) - 1))))"

subsection \<open>The descent, as both simulators run it\<close>

text \<open>
  \<^verbatim>\<open>calculateLandingPlots\<close> (\<^verbatim>\<open>main.js\<close>) and \<^verbatim>\<open>driftSimulation\<close> (\<^verbatim>\<open>drift_simulation.js\<close>)
  contain the same three loops, the second reading the rocket through accessors.

  The search for the band of the apogee:
  \<^verbatim>\<open>for (windIndex = 1; windIndex < windData.length; ++windIndex)
     if (windData[windIndex].altitude >= rocketAltitude) break;\<close>
  The first argument of \<open>searchWindIndex\<close> is the array from \<open>windIndex\<close> on.
\<close>

fun searchWindIndex :: "WindAtAltitude list \<Rightarrow> real \<Rightarrow> nat \<Rightarrow> nat" where
  "searchWindIndex [] rocketAltitude windIndex = windIndex"
| "searchWindIndex (w # ws) rocketAltitude windIndex =
     (if altitude w \<ge> rocketAltitude then windIndex
      else searchWindIndex ws rocketAltitude (windIndex + 1))"

definition findWindIndex :: "WindAtAltitude list \<Rightarrow> real \<Rightarrow> nat" where
  "findWindIndex windData rocketAltitude = searchWindIndex (drop 1 windData) rocketAltitude 1"

text \<open>
  The loop that builds the descent list, \<^verbatim>\<open>for (; windIndex >= 0; --windIndex)\<close>. The counter
  of \<open>descendBands\<close> is the number of iterations left: \<open>Suc windIndex\<close> runs the body at
  \<open>windIndex\<close>. The state is \<open>(rocketAltitude, currentDescentRate, descentList)\<close>. Reading
  \<^verbatim>\<open>windData[windIndex + 1].altitude\<close> beyond the end of the array throws a \<^verbatim>\<open>TypeError\<close>.
\<close>

fun descendBands ::
  "WindAtAltitude list \<Rightarrow> real \<Rightarrow> jsnum \<Rightarrow> nat \<Rightarrow> real \<times> jsnum \<times> DescentData list
     \<Rightarrow> error + (real \<times> jsnum \<times> DescentData list)" where
  "descendBands windData mainDeployAltitude mainDescentRate 0 state = Inr state"
| "descendBands windData mainDeployAltitude mainDescentRate (Suc windIndex)
     (rocketAltitude, currentDescentRate, descentList) =
     (if Suc windIndex \<ge> length windData then Inl TypeError
      else
        let lower = windData ! windIndex;
            upper = windData ! Suc windIndex;
            descentDistance = altitude upper - altitude lower
        in if descentDistance \<le> 0 then
             descendBands windData mainDeployAltitude mainDescentRate windIndex
               (altitude lower, currentDescentRate, descentList)
           else if altitude lower = mainDeployAltitude then
             (case newDescentData mainDeployAltitude mainDescentRate
                     (windSpeed lower) (windDirection lower) of
                Inl e \<Rightarrow> Inl e
              | Inr deployment \<Rightarrow>
                  descendBands windData mainDeployAltitude mainDescentRate windIndex
                    (rocketAltitude, mainDescentRate, descentList @ [deployment]))
           else if altitude lower < mainDeployAltitude \<and> altitude upper > mainDeployAltitude then
             (let windBandPercentage =
                    getWindBandPercentage mainDeployAltitude windData (int windIndex);
                  windSpeed' = getAverageWindSpeed windBandPercentage windData (int windIndex);
                  windDirection' =
                    getAverageWindDirection windBandPercentage windData (int windIndex)
              in case newDescentData mainDeployAltitude mainDescentRate windSpeed' windDirection' of
                   Inl e \<Rightarrow> Inl e
                 | Inr deployment \<Rightarrow>
                     (case newDescentData (altitude lower) mainDescentRate
                             (windSpeed lower) (windDirection lower) of
                        Inl e \<Rightarrow> Inl e
                      | Inr step \<Rightarrow>
                          descendBands windData mainDeployAltitude mainDescentRate windIndex
                            (rocketAltitude, mainDescentRate,
                             descentList @ [deployment, step])))
           else
             (case newDescentData (altitude lower) currentDescentRate
                     (windSpeed lower) (windDirection lower) of
                Inl e \<Rightarrow> Inl e
              | Inr step \<Rightarrow>
                  descendBands windData mainDeployAltitude mainDescentRate windIndex
                    (rocketAltitude, currentDescentRate, descentList @ [step])))"

text \<open>
  From the search to the finished descent list: the step at the apogee, then the bands below
  it. \<open>None\<close> is the case \<^verbatim>\<open>windData.length == windIndex\<close>, in which the source leaves the
  hour (\<^verbatim>\<open>continue\<close>, or \<^verbatim>\<open>return null\<close>). The result carries the final value of
  \<^verbatim>\<open>rocketAltitude\<close>, which the loop overwrites when it meets two samples that do not ascend.
\<close>

definition buildDescentList ::
  "WindAtAltitude list \<Rightarrow> real \<Rightarrow> bool \<Rightarrow> real \<Rightarrow> jsnum \<Rightarrow> jsnum
     \<Rightarrow> error + (real \<times> DescentData list) option" where
  "buildDescentList windData rocketAltitude usingDualDeployment mainDeployAltitude
       drogueDescentRate mainDescentRate =
     (let windIndex = findWindIndex windData rocketAltitude
      in if length windData = windIndex then Inr None
         else
           let windIndex = windIndex - 1;
               currentDescentRate =
                 (if usingDualDeployment then drogueDescentRate else mainDescentRate);
               windBandPercentage = getWindBandPercentage rocketAltitude windData (int windIndex);
               windSpeed' = getAverageWindSpeed windBandPercentage windData (int windIndex);
               windDirection' = getAverageWindDirection windBandPercentage windData (int windIndex)
           in case newDescentData rocketAltitude currentDescentRate windSpeed' windDirection' of
                Inl e \<Rightarrow> Inl e
              | Inr apogeeStep \<Rightarrow>
                  (case descendBands windData mainDeployAltitude mainDescentRate (Suc windIndex)
                          (rocketAltitude, currentDescentRate, [apogeeStep]) of
                     Inl e \<Rightarrow> Inl e
                   | Inr (rocketAltitude, currentDescentRate, descentList) \<Rightarrow>
                       Inr (Some (rocketAltitude, descentList))))"

text \<open>
  The integration loop, \<^verbatim>\<open>for (let x = 1; x < descentList.length; ++x)\<close>, on the list from
  \<^verbatim>\<open>descentList[x - 1]\<close> on. The state is \<open>(rocketLocation, currentDescentRate,
  launchSimulation)\<close>. The value \<^verbatim>\<open>driftWithWind\<close> returns is not read.
\<close>

fun integrateDescent ::
  "geodesy \<Rightarrow> DescentData list \<Rightarrow> GeoLocation \<times> real \<times> LaunchSimulationData
     \<Rightarrow> GeoLocation \<times> real \<times> LaunchSimulationData" where
  "integrateDescent g (previous # current # rest)
     (rocketLocation, currentDescentRate, launchSimulation) =
     (let windSpeed' = (stepWindSpeed current + stepWindSpeed previous) / 2;
          descentDistance = stepAltitude previous - stepAltitude current;
          windDirection' =
            stepAverageDirection (stepWindDirection previous) (stepWindDirection current);
          rocketLocation =
            fst (driftWithWind g rocketLocation windSpeed' windDirection'
                   (Num currentDescentRate) descentDistance);
          launchSimulation =
            addLaunchPathPoint launchSimulation (stepAltitude current) rocketLocation
      in integrateDescent g (current # rest)
           (rocketLocation, descentRate current, launchSimulation))"
| "integrateDescent g descentList state = state"

subsection \<open>Weathercocking\<close>

text \<open>\<^verbatim>\<open>linearInterpolate\<close> (\<^verbatim>\<open>main.js\<close>, and the same text in \<^verbatim>\<open>rocket.js\<close>).\<close>

definition linearInterpolate :: "real \<Rightarrow> real \<Rightarrow> real \<Rightarrow> real \<Rightarrow> real \<Rightarrow> real" where
  "linearInterpolate sourceValue sourceLower sourceUpper targetLower targetUpper =
     (if 0 = sourceUpper - sourceLower then targetLower
      else targetLower
             + ((sourceValue - sourceLower)
                 * ((targetUpper - targetLower) / (sourceUpper - sourceLower))))"

text \<open>
  The loop shared by the three versions of \<^verbatim>\<open>weathercockAdjustment\<close>,
  \<^verbatim>\<open>for (let index = 1; index < weathercockData.length; ++index)\<close>, on the list from
  \<^verbatim>\<open>weathercockData[index - 1]\<close> on. It returns \<^verbatim>\<open>apogeeAltitude\<close>, which stays \<open>- 1\<close> when
  no entry matches, and the location after the call.
\<close>

fun weathercockLoop ::
  "geodesy \<Rightarrow> GeoLocation \<Rightarrow> real \<Rightarrow> real \<Rightarrow> WeathercockWindData list \<Rightarrow> real \<times> GeoLocation" where
  "weathercockLoop g apogeeLocation windDirection' windSpeed' (previous # current # rest) =
     (if windSpeed' \<le> wcWindSpeed current then
        let finalDistance =
              linearInterpolate windSpeed' (wcWindSpeed current) (wcWindSpeed previous)
                (upwindDistance current) (upwindDistance previous);
            apogeeLocation =
              moveAlongBearing g apogeeLocation (feetToMeters g finalDistance) windDirection';
            apogeeAltitude =
              linearInterpolate windSpeed' (wcWindSpeed current) (wcWindSpeed previous)
                (apogee current) (apogee previous)
        in (apogeeAltitude, apogeeLocation)
      else weathercockLoop g apogeeLocation windDirection' windSpeed' (current # rest))"
| "weathercockLoop g apogeeLocation windDirection' windSpeed' weathercockData =
     (- 1, apogeeLocation)"

text \<open>\<^verbatim>\<open>weathercockAdjustment\<close> of \<^verbatim>\<open>main.js\<close>: the loop alone.\<close>

definition weathercockAdjustment ::
  "geodesy \<Rightarrow> GeoLocation \<Rightarrow> real \<Rightarrow> real \<Rightarrow> WeathercockWindData list \<Rightarrow> real \<times> GeoLocation" where
  "weathercockAdjustment g apogeeLocation windDirection' windSpeed' weathercockData =
     weathercockLoop g apogeeLocation windDirection' windSpeed' weathercockData"

text \<open>
  \<^verbatim>\<open>weathercockAdjustment\<close> of the later \<^verbatim>\<open>main.js\<close> (the one that reads its inputs from
  \<^verbatim>\<open>launchDateElement\<close> and its neighbours): the table is checked at both ends before the loop.
\<close>

definition weathercockAdjustmentChecked ::
  "geodesy \<Rightarrow> GeoLocation \<Rightarrow> real \<Rightarrow> real \<Rightarrow> WeathercockWindData list \<Rightarrow> real \<times> GeoLocation" where
  "weathercockAdjustmentChecked g apogeeLocation windDirection' windSpeed' weathercockData =
     (if 0 = length weathercockData then (- 1, apogeeLocation)
      else if windSpeed' \<le> wcWindSpeed (weathercockData ! 0) then
        (apogee (weathercockData ! 0),
         if upwindDistance (weathercockData ! 0) > 0 then
           moveAlongBearing g apogeeLocation
             (feetToMeters g (upwindDistance (weathercockData ! 0))) windDirection'
         else apogeeLocation)
      else if windSpeed' > wcWindSpeed (weathercockData ! (length weathercockData - 1)) then
        (apogee (weathercockData ! 0),
         moveAlongBearing g apogeeLocation
           (feetToMeters g (upwindDistance (weathercockData ! (length weathercockData - 1))))
           windDirection')
      else weathercockLoop g apogeeLocation windDirection' windSpeed' weathercockData)"

text \<open>
  \<^verbatim>\<open>RocketWeathercocking.weathercockAdjustment\<close> (\<^verbatim>\<open>rocket.js\<close>), with the rocket's fields
  \<^verbatim>\<open>#apogee\<close> and \<^verbatim>\<open>#weathercockData\<close> and the two fields of the forecast it reads as
  arguments. It works on a copy of the location and returns a path point.
\<close>

definition rocketWeathercockAdjustment ::
  "geodesy \<Rightarrow> real \<Rightarrow> WeathercockWindData list \<Rightarrow> GeoLocation \<Rightarrow> real \<Rightarrow> real
     \<Rightarrow> LaunchPathPoint" where
  "rocketWeathercockAdjustment g rocketApogee weathercockData rocketLocation
       groundWindSpeed' groundWindDirection' =
     (if 0 = length weathercockData then newLaunchPathPoint rocketApogee rocketLocation
      else
        let windSpeed' = 1.15078 * groundWindSpeed';
            apogeeLocation = rocketLocation
        in if windSpeed' \<le> wcWindSpeed (weathercockData ! 0) then
             newLaunchPathPoint (apogee (weathercockData ! 0))
               (if upwindDistance (weathercockData ! 0) > 0 then
                  moveAlongBearing g apogeeLocation
                    (feetToMeters g (upwindDistance (weathercockData ! 0))) groundWindDirection'
                else apogeeLocation)
           else if windSpeed' > wcWindSpeed (weathercockData ! (length weathercockData - 1)) then
             newLaunchPathPoint (apogee (weathercockData ! (length weathercockData - 1)))
               (moveAlongBearing g apogeeLocation
                  (feetToMeters g
                     (upwindDistance (weathercockData ! (length weathercockData - 1))))
                  groundWindDirection')
           else
             let (apogeeAltitude, apogeeLocation) =
                   weathercockLoop g apogeeLocation groundWindDirection' windSpeed' weathercockData
             in newLaunchPathPoint apogeeAltitude apogeeLocation)"

subsection \<open>One hour of \<^verbatim>\<open>calculateLandingPlots\<close> (\<^verbatim>\<open>main.js\<close>)\<close>

record WindForecastData =
  model :: string
  windData :: "WindAtAltitude list"
  groundElevation :: real
  groundWindSpeed :: real
  groundWindDirection :: real

text \<open>
  The values \<^verbatim>\<open>calculateLandingPlots\<close> holds when it enters its loop over the hours, under
  the names of its variables. \<open>siteElevation\<close> is the number parsed from the elevation
  field of the page, \<open>None\<close> when that is \<^verbatim>\<open>NaN\<close>, and \<open>startHour\<close> is
  \<^verbatim>\<open>launchTimes.launchDate.getHours()\<close>.
\<close>

record plotInputs =
  rocketApogee :: real
  applyWeathercockAdjustment :: bool
  weathercockData :: "WeathercockWindData list"
  launchLocation :: GeoLocation
  mainDescentRate :: real
  usingDualDeployoment :: bool
  mainDeployAltitude :: real
  drogueDecentRate :: real
  siteElevation :: "real option"
  startHour :: int


text \<open>\<^verbatim>\<open>Math.round\<close>: the nearest integer, a half rounding up.\<close>

definition Math_round :: "real \<Rightarrow> real" where
  "Math_round x = of_int \<lfloor>x + 1 / 2\<rfloor>"

text \<open>
  The ground wind of the hour: the mean direction and the mean speed, in miles per hour and
  rounded, of the lowest \<^verbatim>\<open>altitudeCount\<close> samples. With no sample at all both are \<open>0 / 0\<close>,
  that is \<^verbatim>\<open>NaN\<close>: the result \<open>None\<close>.
\<close>

definition averageGroundWind :: "WindForecastData \<Rightarrow> real \<Rightarrow> (real \<times> real) option" where
  "averageGroundWind windForecast apogeeEntered =
     (let altitudeCount =
            (if ''RAP'' = model windForecast then (if apogeeEntered \<le> 1000 then 2 else 4)
             else (1::nat));
          altitudeCount =
            (if altitudeCount \<ge> length (windData windForecast)
             then length (windData windForecast) else altitudeCount);
          groundWindDirection' =
            sum_list (map windDirection (take altitudeCount (windData windForecast)));
          groundWindSpeed' =
            sum_list (map windSpeed (take altitudeCount (windData windForecast)))
      in if altitudeCount = 0 then None
         else Some (groundWindDirection' / real altitudeCount,
                    Math_round ((groundWindSpeed' / real altitudeCount) * 1.15078)))"

text \<open>
  The first half of the body of the loop, for one hour with a forecast: from \<^verbatim>\<open>let
  rocketLocation = launchLocation.getCopy()\<close> to the end of the weathercock adjustment. It
  gives the apogee altitude and the apogee location that the descent starts from. Every
  comparison of \<^verbatim>\<open>weathercockAdjustment\<close> with a \<^verbatim>\<open>NaN\<close> wind speed is false, so that it
  returns \<open>- 1\<close> and leaves the location alone.
\<close>

definition apogeeOfHour :: "geodesy \<Rightarrow> plotInputs \<Rightarrow> WindForecastData \<Rightarrow> real \<times> GeoLocation" where
  "apogeeOfHour g inputs windForecast =
     (let rocketLocation = launchLocation inputs
      in if applyWeathercockAdjustment inputs then
           let (rocketAltitude, rocketLocation) =
                 (case averageGroundWind windForecast (rocketApogee inputs) of
                    None \<Rightarrow> (- 1, rocketLocation)
                  | Some (groundWindDirection', groundWindSpeed') \<Rightarrow>
                      weathercockAdjustment g rocketLocation groundWindDirection'
                        groundWindSpeed' (weathercockData inputs))
           in (if rocketAltitude \<le> 0 then rocketApogee inputs else rocketAltitude,
               rocketLocation)
         else (rocketApogee inputs, rocketLocation))"

text \<open>
  The second half, from \<^verbatim>\<open>let windIndex = 1\<close> to \<^verbatim>\<open>simulationList.push(launchSimulation)\<close>.
  \<open>Inr None\<close> is \<^verbatim>\<open>continue\<close>: the hour adds nothing to the list.
\<close>

definition simulateHour ::
  "geodesy \<Rightarrow> plotInputs \<Rightarrow> int \<Rightarrow> WindForecastData \<Rightarrow> error + LaunchSimulationData option" where
  "simulateHour g inputs hour windForecast =
     (let launchSiteElevation =
            (case siteElevation inputs of
               None \<Rightarrow> groundElevation windForecast
             | Some e \<Rightarrow> if e < 0 then groundElevation windForecast else e);
          (rocketAltitude, rocketLocation) = apogeeOfHour g inputs windForecast
      in case buildDescentList (windData windForecast) rocketAltitude
                (usingDualDeployoment inputs) (mainDeployAltitude inputs)
                (Num (drogueDecentRate inputs)) (Num (mainDescentRate inputs)) of
           Inl e \<Rightarrow> Inl e
         | Inr None \<Rightarrow> Inr None
         | Inr (Some (rocketAltitude, descentList)) \<Rightarrow>
             if length descentList < 2 then Inr None
             else
               let currentDescentRate = descentRate (descentList ! 0);
                   launchSimulation = newLaunchSimulationData launchSiteElevation hour;
                   launchSimulation =
                     addLaunchPathPoint launchSimulation 0 (launchLocation inputs);
                   launchSimulation =
                     addLaunchPathPoint launchSimulation rocketAltitude rocketLocation;
                   (rocketLocation, currentDescentRate, launchSimulation) =
                     integrateDescent g descentList
                       (rocketLocation, currentDescentRate, launchSimulation)
               in Inr (Some launchSimulation))"

text \<open>
  The loop over the hours, \<^verbatim>\<open>for (currentOffset = startHourOffset; currentOffset <=
  endHourOffset; ++currentOffset)\<close>, on the forecasts the hours get: \<open>None\<close> is the \<^verbatim>\<open>null\<close>
  of a failed request. \<open>offset\<close> is \<^verbatim>\<open>currentOffset - startHourOffset\<close>. An exception ends the
  whole function.
\<close>

fun plotHours ::
  "geodesy \<Rightarrow> plotInputs \<Rightarrow> int \<Rightarrow> WindForecastData option list \<Rightarrow> LaunchSimulationData list
     \<Rightarrow> error + LaunchSimulationData list" where
  "plotHours g inputs offset [] simulationList = Inr simulationList"
| "plotHours g inputs offset (None # forecasts) simulationList =
     plotHours g inputs (offset + 1) forecasts simulationList"
| "plotHours g inputs offset (Some windForecast # forecasts) simulationList =
     (case simulateHour g inputs (startHour inputs + offset) windForecast of
        Inl e \<Rightarrow> Inl e
      | Inr None \<Rightarrow> plotHours g inputs (offset + 1) forecasts simulationList
      | Inr (Some launchSimulation) \<Rightarrow>
          plotHours g inputs (offset + 1) forecasts (simulationList @ [launchSimulation]))"







subsection \<open>\<^verbatim>\<open>driftSimulation\<close> (\<^verbatim>\<open>drift_simulation.js\<close>) and the rockets (\<^verbatim>\<open>rocket.js\<close>)\<close>

text \<open>
  \<^verbatim>\<open>RocketBase\<close> and its two subclasses. The setters store their arguments unchecked, so a
  rate may be \<^verbatim>\<open>NaN\<close> or zero. The field \<^verbatim>\<open>#mainDeployAltitude\<close> is named \<open>mainDeployAlt\<close>.
\<close>

datatype rocketClass =
  RocketBase
| RocketApogee real
| RocketWeathercocking real "WeathercockWindData list"

record rocket =
  descentRateMain :: jsnum
  mainDeployAlt :: real
  descentRateDrogue :: jsnum
  rocketClass :: rocketClass

definition usingDualDeployment :: "rocket \<Rightarrow> bool" where
  "usingDualDeployment r \<longleftrightarrow> mainDeployAlt r > 0"

text \<open>
  \<^verbatim>\<open>LaunchLocationData\<close>, of which the simulation reads \<^verbatim>\<open>altitude\<close> and \<^verbatim>\<open>location\<close>
  (here \<open>launchAltitude\<close> and \<open>launchSite\<close>).
\<close>

record LaunchLocationData =
  launchAltitude :: real
  launchSite :: GeoLocation

definition getLaunchPath ::
  "geodesy \<Rightarrow> rocket \<Rightarrow> LaunchLocationData \<Rightarrow> WindForecastData \<Rightarrow> LaunchPathPoint list" where
  "getLaunchPath g r launchDetails windForecast =
     (case rocketClass r of
        RocketBase \<Rightarrow>
          [newLaunchPathPoint (launchAltitude launchDetails) (launchSite launchDetails)]
      | RocketApogee apogee' \<Rightarrow>
          [newLaunchPathPoint 0 (launchSite launchDetails),
           newLaunchPathPoint apogee' (launchSite launchDetails)]
      | RocketWeathercocking apogee' table \<Rightarrow>
          [newLaunchPathPoint 0 (launchSite launchDetails),
           rocketWeathercockAdjustment g apogee' table (launchSite launchDetails)
             (groundWindSpeed windForecast) (groundWindDirection windForecast)])"

text \<open>
  \<^verbatim>\<open>driftSimulation(launchDetails, launchTime, rocketDetails, windForecast)\<close>; \<open>hour\<close> is
  \<^verbatim>\<open>launchTime.getHours()\<close>, and \<open>Inr None\<close> is \<^verbatim>\<open>return null\<close>.
\<close>

definition driftSimulation ::
  "geodesy \<Rightarrow> LaunchLocationData \<Rightarrow> int \<Rightarrow> rocket \<Rightarrow> WindForecastData
     \<Rightarrow> error + LaunchSimulationData option" where
  "driftSimulation g launchDetails hour rocketDetails windForecast =
     (let launchPath' = getLaunchPath g rocketDetails launchDetails windForecast
      in if 0 = length launchPath' then Inr None
         else
           let apogeePathPoint = launchPath' ! (length launchPath' - 1);
               rocketLocation = location apogeePathPoint;
               rocketAltitude = pointAltitude apogeePathPoint
           in case buildDescentList (windData windForecast) rocketAltitude
                     (usingDualDeployment rocketDetails) (mainDeployAlt rocketDetails)
                     (descentRateDrogue rocketDetails) (descentRateMain rocketDetails) of
                Inl e \<Rightarrow> Inl e
              | Inr None \<Rightarrow> Inr None
              | Inr (Some (rocketAltitude, descentList)) \<Rightarrow>
                  if length descentList < 2 then Inr None
                  else
                    let currentDescentRate = descentRate (descentList ! 0);
                        launchSimulation =
                          newLaunchSimulationData (launchAltitude launchDetails) hour;
                        launchSimulation =
                          fold (\<lambda>launchPathPoint sim.
                                  addLaunchPathPoint sim (pointAltitude launchPathPoint)
                                    (location launchPathPoint))
                            launchPath' launchSimulation;
                        (rocketLocation, currentDescentRate, launchSimulation) =
                          integrateDescent g descentList
                            (rocketLocation, currentDescentRate, launchSimulation)
                    in Inr (Some launchSimulation))"

subsection \<open>A geodesy for examples\<close>

text \<open>
  Where an example needs a geodesy to compute with, it uses a flat one: a foot is 0.3048
  meters, a degree is 111320 meters in both directions, and the north and east shares of a
  bearing are piecewise linear in it (1 and 0 at 0 degrees, 0 and 1 at 90, \<open>- 1\<close> and 0 at
  180, 0 and \<open>- 1\<close> at 270). It stands for no function of \<^verbatim>\<open>geo.js\<close>; the general theorems
  are about every geodesy.
\<close>

definition northShare :: "real \<Rightarrow> real" where
  "northShare b = (if b \<le> 180 then 1 - b / 90 else b / 90 - 3)"

definition eastShare :: "real \<Rightarrow> real" where
  "eastShare b = (if b \<le> 90 then b / 90 else if b \<le> 270 then 2 - b / 90 else b / 90 - 4)"

definition flatMove :: "GeoLocation \<Rightarrow> real \<Rightarrow> real \<Rightarrow> GeoLocation" where
  "flatMove loc meters bearing =
     \<lparr>latitude = latitude loc + meters * northShare bearing / 111320,
      longitude = longitude loc + meters * eastShare bearing / 111320\<rparr>"

definition flatGeodesy :: geodesy where
  "flatGeodesy =
     \<lparr>moveAlongBearing = flatMove, moveAlongBearingKilometers = flatMove,
      feetToMeters = (\<lambda>feet. feet * 0.3048)\<rparr>"

subsection \<open>Example data\<close>

text \<open>
  A launch site, the inputs of a single-deployment flight at 20 ft/s with a given apogee and
  no weathercocking, forecasts around a list of samples, and two lists of samples: one at 0,
  500 and 1500 feet, and one whose two samples share the altitude 500.
\<close>

definition launchSiteEx :: GeoLocation where
  "launchSiteEx = \<lparr>latitude = 40, longitude = - 100\<rparr>"

definition inputsEx :: "real \<Rightarrow> plotInputs" where
  "inputsEx apogeeEntered =
     \<lparr>rocketApogee = apogeeEntered, applyWeathercockAdjustment = False, weathercockData = [],
      launchLocation = launchSiteEx, mainDescentRate = 20, usingDualDeployoment = False,
      mainDeployAltitude = - 1, drogueDecentRate = 20, siteElevation = None, startHour = 9\<rparr>"

definition forecastEx :: "WindAtAltitude list \<Rightarrow> WindForecastData" where
  "forecastEx samples =
     \<lparr>model = ''RAP'', windData = samples, groundElevation = 100,
      groundWindSpeed = 5, groundWindDirection = 270\<rparr>"

definition windEx :: "WindAtAltitude list" where
  "windEx =
     [\<lparr>altitude = 0, windSpeed = 5, windDirection = 270\<rparr>,
      \<lparr>altitude = 500, windSpeed = 10, windDirection = 280\<rparr>,
      \<lparr>altitude = 1500, windSpeed = 20, windDirection = 290\<rparr>]"

definition windLevel :: "WindAtAltitude list" where
  "windLevel =
     [\<lparr>altitude = 500, windSpeed = 5, windDirection = 270\<rparr>,
      \<lparr>altitude = 500, windSpeed = 10, windDirection = 280\<rparr>]"

text \<open>
  A weathercock table for 0, 5 and 10 mph, a profile with 10 knots at both samples (11.5 mph on
  the ground, rounded to 12), the launch details of the site, and a rocket of class
  \<^verbatim>\<open>RocketApogee\<close> set to a single deployment at 0 ft/s, with the descent list it gets in
  \<open>windEx\<close>.
\<close>

definition tableEx :: "WeathercockWindData list" where
  "tableEx =
     [\<lparr>wcWindSpeed = 0, upwindDistance = 0, apogee = 1000\<rparr>,
      \<lparr>wcWindSpeed = 5, upwindDistance = 50, apogee = 950\<rparr>,
      \<lparr>wcWindSpeed = 10, upwindDistance = 120, apogee = 900\<rparr>]"

definition windSteady :: "WindAtAltitude list" where
  "windSteady =
     [\<lparr>altitude = 0, windSpeed = 10, windDirection = 270\<rparr>,
      \<lparr>altitude = 1000, windSpeed = 10, windDirection = 270\<rparr>]"

definition siteEx :: LaunchLocationData where
  "siteEx = \<lparr>launchAltitude = 100, launchSite = launchSiteEx\<rparr>"

definition rocketStalled :: rocket where
  "rocketStalled =
     \<lparr>descentRateMain = Num 0, mainDeployAlt = - 1, descentRateDrogue = Num 75,
      rocketClass = RocketApogee 1500\<rparr>"

definition stalledList :: "DescentData list" where
  "stalledList =
     [\<lparr>stepAltitude = 1500, descentRate = 0, stepWindSpeed = 15, stepWindDirection = 285\<rparr>,
      \<lparr>stepAltitude = 500, descentRate = 0, stepWindSpeed = 10, stepWindDirection = 280\<rparr>,
      \<lparr>stepAltitude = 0, descentRate = 0, stepWindSpeed = 5, stepWindDirection = 270\<rparr>]"

subsection \<open>Notions for the properties\<close>

text \<open>
  The samples ascend: each altitude is below the next. \<^verbatim>\<open>WindForecastData\<close> builds its list
  from a set of altitudes that it sorts, so the lists it holds ascend.
\<close>

definition ascending :: "WindAtAltitude list \<Rightarrow> bool" where
  "ascending wd \<longleftrightarrow> sorted_wrt (<) (map altitude wd)"

text \<open>The descent step at sample \<open>k\<close>, with the raw wind of the sample and a given rate.\<close>

definition rawStep :: "WindAtAltitude list \<Rightarrow> real \<Rightarrow> nat \<Rightarrow> DescentData" where
  "rawStep wd rate k =
     \<lparr>stepAltitude = altitude (wd ! k), descentRate = rate,
      stepWindSpeed = windSpeed (wd ! k), stepWindDirection = windDirection (wd ! k)\<rparr>"

text \<open>
  The inputs of a dual-deployment flight: drogue at 75 ft/s down to 500 feet, main at
  20 ft/s below.
\<close>

definition inputsDualEx :: "real \<Rightarrow> plotInputs" where
  "inputsDualEx apogeeEntered =
     (inputsEx apogeeEntered)
       \<lparr>usingDualDeployoment := True, mainDeployAltitude := 500, drogueDecentRate := 75\<rparr>"

text \<open>
  A calm profile: no wind at any sample. A loaded table: what \<^verbatim>\<open>loadWeathercockData\<close> builds,
  a first entry for 0 mph with no upwind distance, then entries for speeds above zero.
\<close>

definition calm :: "WindAtAltitude list \<Rightarrow> bool" where
  "calm wd \<longleftrightarrow> (\<forall>s\<in>set wd. windSpeed s = 0)"

definition loadedTable :: "WeathercockWindData list \<Rightarrow> bool" where
  "loadedTable table \<longleftrightarrow>
     table \<noteq> [] \<and> wcWindSpeed (hd table) = 0 \<and> upwindDistance (hd table) = 0
     \<and> (\<forall>e\<in>set (tl table). 0 < wcWindSpeed e)"

text \<open>
  A calm profile at 0, 500 and 1500 feet, the inputs of a dual-deployment flight to 1000 feet
  with the weathercock table \<open>tableEx\<close>, and the descent list of that flight.
\<close>

definition windCalm :: "WindAtAltitude list" where
  "windCalm =
     [\<lparr>altitude = 0, windSpeed = 0, windDirection = 270\<rparr>,
      \<lparr>altitude = 500, windSpeed = 0, windDirection = 280\<rparr>,
      \<lparr>altitude = 1500, windSpeed = 0, windDirection = 290\<rparr>]"

definition inputsCalm :: plotInputs where
  "inputsCalm =
     (inputsDualEx 1000)\<lparr>applyWeathercockAdjustment := True, weathercockData := tableEx\<rparr>"

definition calmList :: "DescentData list" where
  "calmList =
     [\<lparr>stepAltitude = 1000, descentRate = 75, stepWindSpeed = 0,
         stepWindDirection = 565 / 2\<rparr>,
      \<lparr>stepAltitude = 500, descentRate = 20, stepWindSpeed = 0, stepWindDirection = 280\<rparr>,
      \<lparr>stepAltitude = 0, descentRate = 20, stepWindSpeed = 0, stepWindDirection = 270\<rparr>]"

subsection \<open>The flight path as objects\<close>

text \<open>
  A path point keeps a \<^verbatim>\<open>GeoLocation\<close> object, and \<^verbatim>\<open>driftWithWind\<close> overwrites the object
  \<^verbatim>\<open>rocketLocation\<close> in place. To tell which objects the points keep, the last part of the
  hour, from \<^verbatim>\<open>addLaunchPathPoint(0, launchLocation)\<close> to the end of the integration loop, is
  written a second time over a store of objects. A store maps the address of each
  \<^verbatim>\<open>GeoLocation\<close> to its coordinates; the addresses below \<open>nextFree\<close> are in use. A path
  point is its altitude and the address of its location, and a path is a list of these.
\<close>

record store =
  cells :: "nat \<Rightarrow> GeoLocation"
  nextFree :: nat

text \<open>\<^verbatim>\<open>new GeoLocation(lat, lon)\<close>: a new object at the next free address.\<close>

definition newGeoLocation :: "store \<Rightarrow> real \<Rightarrow> real \<Rightarrow> nat \<times> store" where
  "newGeoLocation st lat lon =
     (nextFree st,
      st\<lparr>cells := (cells st)(nextFree st := \<lparr>latitude = lat, longitude = lon\<rparr>),
         nextFree := Suc (nextFree st)\<rparr>)"

text \<open>
  \<^verbatim>\<open>addLaunchPathPoint(alt, loc)\<close> with the constructor of \<^verbatim>\<open>LaunchPathPoint\<close>, which builds a
  new \<^verbatim>\<open>GeoLocation\<close> from \<^verbatim>\<open>loc.latitude\<close> and \<^verbatim>\<open>loc.longitude\<close>.
\<close>

definition addLaunchPathPointRef ::
  "store \<times> (real \<times> nat) list \<Rightarrow> real \<Rightarrow> nat \<Rightarrow> store \<times> (real \<times> nat) list" where
  "addLaunchPathPointRef state alt loc =
     (let (st, path) = state;
          (new, st) = newGeoLocation st (latitude (cells st loc)) (longitude (cells st loc))
      in (st, path @ [(alt, new)]))"

text \<open>\<^verbatim>\<open>driftWithWind\<close>, writing the new coordinates into the object it is given.\<close>

definition driftWithWindRef ::
  "geodesy \<Rightarrow> store \<Rightarrow> nat \<Rightarrow> real \<Rightarrow> real \<Rightarrow> jsnum \<Rightarrow> real \<Rightarrow> store" where
  "driftWithWindRef g st rocketLocation windSpeed' windDirection' decentRate descentDistance =
     st\<lparr>cells := (cells st)
          (rocketLocation :=
             fst (driftWithWind g (cells st rocketLocation) windSpeed' windDirection'
                    decentRate descentDistance))\<rparr>"

text \<open>The integration loop; \<open>rocketLocation\<close> is the address of the one object it moves.\<close>

fun integrateDescentRef ::
  "geodesy \<Rightarrow> nat \<Rightarrow> DescentData list \<Rightarrow> store \<times> real \<times> (real \<times> nat) list
     \<Rightarrow> store \<times> real \<times> (real \<times> nat) list" where
  "integrateDescentRef g rocketLocation (previous # current # rest)
     (st, currentDescentRate, path) =
     (let windSpeed' = (stepWindSpeed current + stepWindSpeed previous) / 2;
          descentDistance = stepAltitude previous - stepAltitude current;
          windDirection' =
            stepAverageDirection (stepWindDirection previous) (stepWindDirection current);
          st = driftWithWindRef g st rocketLocation windSpeed' windDirection'
                 (Num currentDescentRate) descentDistance;
          (st, path) = addLaunchPathPointRef (st, path) (stepAltitude current) rocketLocation
      in integrateDescentRef g rocketLocation (current # rest)
           (st, descentRate current, path))"
| "integrateDescentRef g rocketLocation descentList state = state"

text \<open>
  From \<^verbatim>\<open>currentDescentRate = descentList[0].descentRate\<close> to the end of the loop, given the
  addresses of \<^verbatim>\<open>launchLocation\<close> and \<^verbatim>\<open>rocketLocation\<close>.
\<close>

definition flightPathRef ::
  "geodesy \<Rightarrow> store \<Rightarrow> nat \<Rightarrow> nat \<Rightarrow> real \<Rightarrow> DescentData list
     \<Rightarrow> store \<times> (real \<times> nat) list" where
  "flightPathRef g st launchLocation' rocketLocation rocketAltitude descentList =
     (let currentDescentRate = descentRate (descentList ! 0);
          (st, path) = addLaunchPathPointRef (st, []) 0 launchLocation';
          (st, path) = addLaunchPathPointRef (st, path) rocketAltitude rocketLocation;
          (st, currentDescentRate, path) =
            integrateDescentRef g rocketLocation descentList (st, currentDescentRate, path)
      in (st, path))"

text \<open>
  The path read from a store, and the property that the locations of a path are objects of
  their own: no two points share one, and each was made at or after the address \<open>bound\<close>.
\<close>

definition storedPath :: "store \<Rightarrow> (real \<times> nat) list \<Rightarrow> LaunchPathPoint list" where
  "storedPath st path =
     map (\<lambda>(alt, loc). \<lparr>pointAltitude = alt, location = cells st loc\<rparr>) path"

definition ownCopies :: "nat \<Rightarrow> store \<Rightarrow> (real \<times> nat) list \<Rightarrow> bool" where
  "ownCopies bound st path \<longleftrightarrow>
     distinct (map snd path)
     \<and> (\<forall>loc\<in>set (map snd path). bound \<le> loc \<and> loc < nextFree st)"

text \<open>
  A calm profile whose lowest sample is at 100 feet, the descent lists of a flight to 50 feet
  and of a flight to 500 feet in it, and a store with two objects at the launch site.
\<close>

definition windRaised :: "WindAtAltitude list" where
  "windRaised =
     [\<lparr>altitude = 100, windSpeed = 0, windDirection = 270\<rparr>,
      \<lparr>altitude = 1000, windSpeed = 0, windDirection = 270\<rparr>]"

definition lowList :: "DescentData list" where
  "lowList =
     [\<lparr>stepAltitude = 50, descentRate = 20, stepWindSpeed = - 1, stepWindDirection = - 1\<rparr>,
      \<lparr>stepAltitude = 100, descentRate = 20, stepWindSpeed = 0, stepWindDirection = 270\<rparr>]"

definition raisedList :: "DescentData list" where
  "raisedList =
     [\<lparr>stepAltitude = 500, descentRate = 20, stepWindSpeed = 0, stepWindDirection = 270\<rparr>,
      \<lparr>stepAltitude = 100, descentRate = 20, stepWindSpeed = 0, stepWindDirection = 270\<rparr>]"

definition storeEx :: store where
  "storeEx = \<lparr>cells = (\<lambda>loc. launchSiteEx), nextFree = 2\<rparr>"


definition windShallow :: "WindAtAltitude list" where
  "windShallow =
     [\<lparr>altitude = 0, windSpeed = 5, windDirection = 270\<rparr>,
      \<lparr>altitude = 100, windSpeed = 10, windDirection = 280\<rparr>]"

definition hourResult ::
  "geodesy \<Rightarrow> plotInputs \<Rightarrow> int \<Rightarrow> WindForecastData option \<Rightarrow> LaunchSimulationData list" where
  "hourResult g inputs offset forecast =
     (case forecast of
        None \<Rightarrow> []
      | Some windForecast \<Rightarrow>
          (case simulateHour g inputs (startHour inputs + offset) windForecast of
             Inr (Some launchSimulation) \<Rightarrow> [launchSimulation]
           | _ \<Rightarrow> []))"

text \<open>
  An index and the index after it are both within an array: the index is a finite number, not
  below zero, and the next is below the length.
\<close>

definition withinArray :: "number \<Rightarrow> 'a list \<Rightarrow> bool" where
  "withinArray index array \<longleftrightarrow>
     (case index of Finite x \<Rightarrow> 0 \<le> x \<and> x + 1 < real (length array) | _ \<Rightarrow> False)"

section \<open>Properties\<close>

subsection \<open>Averaging within a band\<close>

text \<open>
  C1. Inside a valid band, with \<open>d0\<close> the direction at the floor and \<open>d1\<close> the direction
  interpolated at the band fraction, \<^verbatim>\<open>getAverageWindDirection\<close> returns the circular mean of
  the specification: \<open>(d0 + d1) / 2\<close> when \<open>\<bar>d0 - d1\<bar> < 180\<close>, otherwise
  \<open>((d0 + d1) - 360) / 2\<close> with 360 added when that is negative. The inline copy of the
  integration loop computes the same function of its two directions. Averaging 350 and 10
  gives 0, and averaging 90 and 110 gives 100, in both.
\<close>

theorem getAverageWindDirection_circular_mean:
  assumes "0 \<le> p" and "p \<le> 1" and "0 \<le> i" and "i + 1 < int (length wd)"
  shows "getAverageWindDirection p wd i =
           circularMean (windDirection (wd ! nat i))
             (windDirection (wd ! nat i)
               + p * (windDirection (wd ! nat (i + 1)) - windDirection (wd ! nat i)))
         \<and> stepAverageDirection d0 d1 = circularMean d0 d1
         \<and> getAverageWindDirection 1 (bandOf 350 10) 0 = 0
         \<and> getAverageWindDirection 1 (bandOf 90 110) 0 = 100
         \<and> stepAverageDirection 350 10 = 0
         \<and> stepAverageDirection 90 110 = 100"
proof -
  have band: "getAverageWindDirection p wd i =
           circularMean (windDirection (wd ! nat i))
             (windDirection (wd ! nat i)
               + p * (windDirection (wd ! nat (i + 1)) - windDirection (wd ! nat i)))"
    using assms by (simp add: getAverageWindDirection_def circularMean_def Let_def)
  have inline: "stepAverageDirection d0 d1 = circularMean d0 d1"
    by (simp add: stepAverageDirection_def circularMean_def Let_def add.commute)
  have ex1: "getAverageWindDirection 1 (bandOf 350 10) 0 = 0"
    by (simp add: getAverageWindDirection_def bandOf_def Let_def)
  have ex2: "getAverageWindDirection 1 (bandOf 90 110) 0 = 100"
    by (simp add: getAverageWindDirection_def bandOf_def Let_def)
  have ex3: "stepAverageDirection 350 10 = 0"
    by (simp add: stepAverageDirection_def Let_def)
  have ex4: "stepAverageDirection 90 110 = 100"
    by (simp add: stepAverageDirection_def Let_def)
  from band inline ex1 ex2 ex3 ex4 show ?thesis by blast
qed

theorem getAverageWindDirection_circular_mean_witness:
  "getAverageWindDirection (1/2) (bandOf 350 10) 0 = 265
   \<and> circularMean 350 (350 + (1/2) * (10 - 350)) = 265
   \<and> stepAverageDirection 10 350 = 0"
proof -
  have h: "(0::real) \<le> 1/2" "(1/2::real) \<le> 1" "(0::int) \<le> 0"
    "(0::int) + 1 < int (length (bandOf 350 10))"
    by (simp_all add: bandOf_def)
  from getAverageWindDirection_circular_mean [OF h, of 10 350]
  show ?thesis by (simp add: bandOf_def circularMean_def)
qed

text \<open>
  C6. Inside a valid band with floor speed \<open>s0\<close> and ceiling speed \<open>s1\<close>, for a band fraction
  \<open>p\<close> in \<open>[0, 1]\<close>, \<^verbatim>\<open>getAverageWindSpeed\<close> returns \<open>(s0 + (s0 + p * (s1 - s0))) / 2\<close>, the
  mean of the floor speed and the speed interpolated at the fraction. This is not the mean
  \<open>(s0 + s1) / 2\<close> of the two endpoints: the two agree only at the top of the band or when
  both endpoints have the same speed.
\<close>

theorem getAverageWindSpeed_half_trapezoid:
  assumes "0 \<le> p" and "p \<le> 1" and "0 \<le> i" and "i + 1 < int (length wd)"
  shows "getAverageWindSpeed p wd i =
           (windSpeed (wd ! nat i)
             + (windSpeed (wd ! nat i)
                 + p * (windSpeed (wd ! nat (i + 1)) - windSpeed (wd ! nat i)))) / 2
         \<and> (getAverageWindSpeed p wd i
               = (windSpeed (wd ! nat i) + windSpeed (wd ! nat (i + 1))) / 2
             \<longleftrightarrow> p = 1 \<or> windSpeed (wd ! nat i) = windSpeed (wd ! nat (i + 1)))"
proof -
  let ?s0 = "windSpeed (wd ! nat i)" and ?s1 = "windSpeed (wd ! nat (i + 1))"
  have val: "getAverageWindSpeed p wd i = (?s0 + (?s0 + p * (?s1 - ?s0))) / 2"
    using assms by (simp add: getAverageWindSpeed_def Let_def)
  have diff: "(?s0 + (?s0 + p * (?s1 - ?s0))) / 2 - (?s0 + ?s1) / 2 = (p - 1) * (?s1 - ?s0) / 2"
    by (simp add: algebra_simps diff_divide_distrib add_divide_distrib)
  have "(?s0 + (?s0 + p * (?s1 - ?s0))) / 2 = (?s0 + ?s1) / 2
          \<longleftrightarrow> (p - 1) * (?s1 - ?s0) / 2 = 0"
    using diff by (metis eq_iff_diff_eq_0)
  also have "\<dots> \<longleftrightarrow> p = 1 \<or> ?s0 = ?s1"
    by auto
  finally have iff: "(?s0 + (?s0 + p * (?s1 - ?s0))) / 2 = (?s0 + ?s1) / 2
          \<longleftrightarrow> p = 1 \<or> ?s0 = ?s1" .
  show ?thesis unfolding val using iff by blast
qed

theorem getAverageWindSpeed_half_trapezoid_witness:
  "getAverageWindSpeed (1/2)
     [\<lparr>altitude = 0, windSpeed = 10, windDirection = 0\<rparr>,
      \<lparr>altitude = 1000, windSpeed = 20, windDirection = 0\<rparr>] 0 = 25/2
   \<and> getAverageWindSpeed (1/2)
     [\<lparr>altitude = 0, windSpeed = 10, windDirection = 0\<rparr>,
      \<lparr>altitude = 1000, windSpeed = 20, windDirection = 0\<rparr>] 0 \<noteq> (10 + 20) / 2"
proof -
  let ?wd = "[\<lparr>altitude = 0, windSpeed = 10, windDirection = 0\<rparr>,
              \<lparr>altitude = 1000, windSpeed = 20, windDirection = 0\<rparr>]"
  have h: "(0::real) \<le> 1/2" "(1/2::real) \<le> 1" "(0::int) \<le> 0"
    "(0::int) + 1 < int (length ?wd)"
    by simp_all
  from getAverageWindSpeed_half_trapezoid [OF h]
  show ?thesis by simp
qed


subsection \<open>The position inside a band\<close>

text \<open>
  Over the reals, with an integer for the index, \<^verbatim>\<open>getWindBandPercentage\<close> returns the
  sentinel \<open>- 1\<close> exactly when the floor index or the index after it is outside the list, or
  the altitude is outside the range from the floor's altitude to the ceiling's, or the two
  altitudes are equal. In every other case it returns
  \<open>(altitude - floor) / (ceiling - floor)\<close>, a number between 0 and 1.
\<close>

lemma getWindBandPercentage_real:
  "(getWindBandPercentage a wd i = - 1 \<longleftrightarrow>
      (i < 0 \<or> int (length wd) \<le> i + 1
       \<or> a < altitude (wd ! nat i) \<or> altitude (wd ! nat (i + 1)) < a
       \<or> altitude (wd ! nat i) = altitude (wd ! nat (i + 1))))
   \<and> (\<not> (i < 0 \<or> int (length wd) \<le> i + 1
          \<or> a < altitude (wd ! nat i) \<or> altitude (wd ! nat (i + 1)) < a
          \<or> altitude (wd ! nat i) = altitude (wd ! nat (i + 1)))
        \<longrightarrow> getWindBandPercentage a wd i
              = (a - altitude (wd ! nat i))
                  / (altitude (wd ! nat (i + 1)) - altitude (wd ! nat i))
            \<and> 0 \<le> getWindBandPercentage a wd i \<and> getWindBandPercentage a wd i \<le> 1)"
proof (cases "i < 0 \<or> int (length wd) \<le> i + 1
       \<or> a < altitude (wd ! nat i) \<or> altitude (wd ! nat (i + 1)) < a
       \<or> altitude (wd ! nat i) = altitude (wd ! nat (i + 1))")
  case True
  then have "getWindBandPercentage a wd i = - 1"
    by (auto simp add: getWindBandPercentage_def Let_def)
  with True show ?thesis by blast
next
  case False
  let ?fl = "altitude (wd ! nat i)" and ?ce = "altitude (wd ! nat (i + 1))"
  from False have range: "?fl \<le> a" "a \<le> ?ce" "?fl < ?ce" and idx: "0 \<le> i" "i + 1 < int (length wd)"
    by auto
  have val: "getWindBandPercentage a wd i = (a - ?fl) / (?ce - ?fl)"
    using range idx by (simp add: getWindBandPercentage_def Let_def)
  have lo: "0 \<le> (a - ?fl) / (?ce - ?fl)"
    using range by simp
  have hi: "(a - ?fl) / (?ce - ?fl) \<le> 1"
    using range by (simp add: divide_le_eq)
  from lo have "(a - ?fl) / (?ce - ?fl) \<noteq> - 1" by linarith
  with False val lo hi show ?thesis by simp
qed

text \<open>
  The same function over the numbers of JavaScript: facts about the arithmetic, the
  function outside and inside the array, and its agreement with the function over the reals
  on finite altitudes and whole indices.
\<close>

lemma maxRange_large: "2 ^ 1023 < maxRange"
  by (simp add: maxRange_def)

lemma toNumber_small: "\<bar>r\<bar> < maxRange \<Longrightarrow> toNumber r = Finite r"
  by (auto simp add: toNumber_def)

lemma toNumber_index: "\<bar>r\<bar> \<le> 2 ^ 1023 \<Longrightarrow> toNumber r = Finite r"
  using maxRange_large by (intro toNumber_small) linarith

lemma element_int:
  "0 \<le> i \<Longrightarrow> i < int (length xs) \<Longrightarrow> element xs (Finite (of_int i)) = Some (xs ! nat i)"
  by (simp add: element_def)

lemma numberPlus_index:
  "0 \<le> i \<Longrightarrow> i + 1 < int (length xs) \<Longrightarrow> length xs < 2 ^ 32
   \<Longrightarrow> numberPlus (Finite (of_int i)) (Finite 1) = Finite (of_int (i + 1))"
proof -
  assume a: "0 \<le> i" "i + 1 < int (length xs)" "length xs < 2 ^ 32"
  have "real (length xs) < 2 ^ 32"
    using a(3) by (metis of_nat_less_iff of_nat_numeral of_nat_power)
  moreover have "real_of_int (i + 1) < real (length xs)"
    using a(2) by (metis of_int_less_iff of_int_of_nat_eq)
  ultimately have "real_of_int (i + 1) < 2 ^ 32" by linarith
  moreover have "(2::real) ^ 32 \<le> 2 ^ 1023" by simp
  ultimately have "\<bar>real_of_int i + 1\<bar> \<le> 2 ^ 1023" using a(1) by simp
  then show ?thesis by (simp add: toNumber_index)
qed

lemma outside_above:
  "int (length xs) \<le> i + 1
   \<Longrightarrow> numberGreaterEq (numberPlus (Finite (of_int i)) (Finite 1)) (Finite (real (length xs)))"
proof -
  assume a: "int (length xs) \<le> i + 1"
  then have "real (length xs) \<le> real_of_int i + 1"
    by (metis of_int_add of_int_le_iff of_int_of_nat_eq of_int_1)
  then show ?thesis
    by (simp add: numberGreaterEq_def toNumber_def)
qed

lemma getWindBandPercentageJS_outside:
  assumes "i < 0 \<or> int (length wd) \<le> i + 1"
  shows "getWindBandPercentageJS rocketAltitude wd (Finite (of_int i)) = Inr (Finite (- 1))"
  using assms outside_above [of wd i] by (auto simp add: getWindBandPercentageJS_def)

lemma getWindBandPercentageJS_inside:
  assumes idx: "0 \<le> i" "i + 1 < int (length wd)" and len: "length wd < 2 ^ 32"
    and fl: "wd ! nat i = altitudeFloor" and ce: "wd ! nat (i + 1) = altitudeCeiling"
  shows "getWindBandPercentageJS rocketAltitude wd (Finite (of_int i))
      = (if numberLess rocketAltitude altitudeFloor \<or> numberGreater rocketAltitude altitudeCeiling
         then Inr (Finite (- 1))
         else if numberEquals (Finite 0) (numberAbs (numberMinus altitudeCeiling altitudeFloor))
         then Inr (Finite (- 1))
         else Inr (numberDivide (numberAbs (numberMinus rocketAltitude altitudeFloor))
                     (numberAbs (numberMinus altitudeCeiling altitudeFloor))))"
proof -
  have next_index: "numberPlus (Finite (of_int i)) (Finite 1) = Finite (of_int (i + 1))"
    using idx len by (rule numberPlus_index)
  have inside: "\<not> (numberLess (Finite (of_int i)) (Finite 0)
      \<or> numberGreaterEq (numberPlus (Finite (of_int i)) (Finite 1)) (Finite (real (length wd))))"
    unfolding next_index using idx by (simp add: numberGreaterEq_def)
  have e0: "element wd (Finite (of_int i)) = Some altitudeFloor"
    using idx fl by (simp add: element_int)
  have e1: "element wd (numberPlus (Finite (of_int i)) (Finite 1)) = Some altitudeCeiling"
    unfolding next_index using idx ce element_int [of "i + 1" wd] by simp
  show ?thesis
    using inside by (simp add: getWindBandPercentageJS_def e0 e1 Let_def del: numberPlus.simps)
qed

lemma numberMinus_finite: "\<bar>x - y\<bar> < maxRange \<Longrightarrow> numberMinus (Finite x) (Finite y) = Finite (x - y)"
  by (simp add: toNumber_small)

lemma numberDivide_fraction:
  assumes "0 \<le> x" "x \<le> y" "0 < y"
  shows "numberDivide (Finite x) (Finite y) = Finite (x / y)"
proof -
  have "\<bar>x / y\<bar> \<le> 1" using assms by simp
  also have "(1::real) \<le> 2 ^ 1023" by simp
  finally have "toNumber (x / y) = Finite (x / y)" by (rule toNumber_index)
  then show ?thesis using assms by simp
qed

lemma getWindBandPercentageJS_real:
  assumes len: "length wd < 2 ^ 32"
    and height: "0 \<le> i \<and> i + 1 < int (length wd) \<longrightarrow>
           \<bar>altitude (wd ! nat (i + 1)) - altitude (wd ! nat i)\<bar> < maxRange"
  shows "getWindBandPercentageJS (Finite a) (map (\<lambda>w. Finite (altitude w)) wd) (Finite (of_int i))
         = Inr (Finite (getWindBandPercentage a wd i))"
proof (cases "i < 0 \<or> int (length wd) \<le> i + 1")
  case True
  then have "i < 0 \<or> int (length (map (\<lambda>w. Finite (altitude w)) wd)) \<le> i + 1" by simp
  then have "getWindBandPercentageJS (Finite a) (map (\<lambda>w. Finite (altitude w)) wd)
      (Finite (of_int i)) = Inr (Finite (- 1))"
    by (rule getWindBandPercentageJS_outside)
  with True show ?thesis by (auto simp add: getWindBandPercentage_def)
next
  case False
  let ?f = "altitude (wd ! nat i)" and ?c = "altitude (wd ! nat (i + 1))"
  let ?wd = "map (\<lambda>w. Finite (altitude w)) wd"
  from False have idx: "0 \<le> i" "i + 1 < int (length ?wd)" by auto
  have len': "length ?wd < 2 ^ 32" using len by simp
  have fl: "?wd ! nat i = Finite ?f" using False by (simp add: nat_less_iff)
  have ce: "?wd ! nat (i + 1) = Finite ?c" using False by (simp add: nat_less_iff)
  note body = getWindBandPercentageJS_inside [OF idx len' fl ce, of "Finite a"]
  from False height have small: "\<bar>?c - ?f\<bar> < maxRange" by auto
  have hgt: "numberMinus (Finite ?c) (Finite ?f) = Finite (?c - ?f)"
    using small by (rule numberMinus_finite)
  show ?thesis
  proof (cases "a < ?f \<or> ?c < a \<or> ?f = ?c")
    case True
    then show ?thesis
      unfolding body hgt using False
      by (auto simp add: numberEquals_def numberGreater_def getWindBandPercentage_def Let_def)
  next
    case out: False
    then have range: "?f \<le> a" "a \<le> ?c" "?f < ?c" by auto
    have "\<bar>a - ?f\<bar> < maxRange" using range small by linarith
    then have fall: "numberMinus (Finite a) (Finite ?f) = Finite (a - ?f)"
      by (rule numberMinus_finite)
    have quot: "numberDivide (Finite \<bar>a - ?f\<bar>) (Finite \<bar>?c - ?f\<bar>)
        = Finite (\<bar>a - ?f\<bar> / \<bar>?c - ?f\<bar>)"
      using numberDivide_fraction [of "\<bar>a - ?f\<bar>" "\<bar>?c - ?f\<bar>"] range by simp
    show ?thesis
      unfolding body hgt fall using out range False quot
      by (simp add: numberEquals_def numberGreater_def getWindBandPercentage_def Let_def)
  qed
qed

lemma getWindBandPercentageJS_NaN:
  "getWindBandPercentageJS NotANumber [Finite 0, Finite 1000] (Finite 0) = Inr NotANumber"
  by (simp add: getWindBandPercentageJS_def numberGreater_def numberGreaterEq_def
      toNumber_index element_def numberEquals_def Let_def)

lemma getWindBandPercentageJS_fraction:
  "getWindBandPercentageJS (Finite 250) [Finite 0, Finite 1000] (Finite (1 / 2)) = Inl TypeError"
  by (simp add: getWindBandPercentageJS_def numberGreater_def numberGreaterEq_def
      toNumber_index element_def numberEquals_def Let_def)

lemma getWindBandPercentageJS_NaN_index:
  "getWindBandPercentageJS (Finite 250) [Finite 0, Finite 1000] NotANumber = Inl TypeError"
  by (simp add: getWindBandPercentageJS_def numberGreaterEq_def element_def)

lemma getWindBandPercentageJS_infinite:
  "getWindBandPercentageJS (Finite 0) [NegativeInfinity, PositiveInfinity] (Finite 0) = Inr NotANumber"
  by (simp add: getWindBandPercentageJS_def numberGreater_def numberGreaterEq_def
      toNumber_index element_def numberEquals_def Let_def)

lemma getWindBandPercentageJS_overflow:
  "getWindBandPercentageJS (Finite (3 * 2 ^ 1022)) [Finite (- (3 * 2 ^ 1022)), Finite (3 * 2 ^ 1022)] (Finite 0) = Inr NotANumber"
  by (simp add: getWindBandPercentageJS_def numberGreater_def numberGreaterEq_def
      toNumber_index element_def numberEquals_def Let_def)
     (simp add: toNumber_def maxRange_def)

lemma getWindBandPercentageJS_refused:
  assumes "floorIndex \<noteq> NotANumber" and "\<not> withinArray floorIndex wd"
  shows "getWindBandPercentageJS rocketAltitude wd floorIndex = Inr (Finite (- 1))"
proof (cases floorIndex)
  case (Finite x)
  with assms(2) have "x < 0 \<or> real (length wd) \<le> x + 1"
    by (auto simp add: withinArray_def)
  then show ?thesis
    unfolding Finite by (auto simp add: getWindBandPercentageJS_def numberGreaterEq_def toNumber_def)
qed (use assms in \<open>simp_all add: getWindBandPercentageJS_def numberGreaterEq_def\<close>)

lemma withinArray_int:
  "withinArray (Finite (of_int i)) wd \<longleftrightarrow> 0 \<le> i \<and> i + 1 < int (length wd)"
proof -
  have "real_of_int i + 1 < real (length wd) \<longleftrightarrow> i + 1 < int (length wd)"
    by (metis of_int_add of_int_less_iff of_int_of_nat_eq of_int_1)
  then show ?thesis by (simp add: withinArray_def)
qed

text \<open>
  C8, as the claim states it: for every altitude, array and index the function returns a
  number, never \<^verbatim>\<open>NaN\<close> and never by an exception. At the altitude \<^verbatim>\<open>NaN\<close> both range tests
  are false and the function returns \<^verbatim>\<open>NaN\<close>; at the index 0.5, and at the index \<^verbatim>\<open>NaN\<close>,
  both bounds tests pass, the sample read is \<^verbatim>\<open>undefined\<close>, and reading its altitude
  throws. A band from \<^verbatim>\<open>-Infinity\<close> to \<^verbatim>\<open>Infinity\<close>, and a band of finite altitudes whose
  height is out of the range of a double, give \<^verbatim>\<open>Infinity / Infinity\<close>, which is \<^verbatim>\<open>NaN\<close>.
\<close>

theorem getWindBandPercentage_NaN_counterexample:
  "getWindBandPercentageJS NotANumber [Finite 0, Finite 1000] (Finite 0) = Inr NotANumber
   \<and> getWindBandPercentageJS (Finite 250) [Finite 0, Finite 1000] (Finite (1 / 2))
       = Inl TypeError
   \<and> getWindBandPercentageJS (Finite 250) [Finite 0, Finite 1000] NotANumber = Inl TypeError
   \<and> getWindBandPercentageJS (Finite 0) [NegativeInfinity, PositiveInfinity] (Finite 0)
       = Inr NotANumber
   \<and> getWindBandPercentageJS (Finite (3 * 2 ^ 1022))
         [Finite (- (3 * 2 ^ 1022)), Finite (3 * 2 ^ 1022)] (Finite 0) = Inr NotANumber"
  using getWindBandPercentageJS_NaN getWindBandPercentageJS_fraction
    getWindBandPercentageJS_NaN_index getWindBandPercentageJS_infinite
    getWindBandPercentageJS_overflow
  by simp

text \<open>
  C8, amended. Let neither the altitude nor the floor index be \<^verbatim>\<open>NaN\<close>, and, where the index
  and the one after it are within the array, let the index be a whole number and the two
  altitudes of the band finite, with a difference within the range of a double (an array has
  fewer than \<open>2 ^ 32\<close> elements). Then \<^verbatim>\<open>getWindBandPercentage\<close> throws nothing and returns a
  finite number. It returns the sentinel \<open>- 1\<close> exactly when the floor index or the index
  after it is outside the array, or the altitude is outside the range from the floor's
  altitude to the ceiling's, or the two altitudes are equal. In every other case the
  altitude is finite and the result is \<open>(altitude - floor) / (ceiling - floor)\<close>, between 0
  and 1.
\<close>

theorem getWindBandPercentage_returns:
  assumes num: "rocketAltitude \<noteq> NotANumber" "floorIndex \<noteq> NotANumber"
    and len: "length wd < 2 ^ 32"
    and band: "withinArray floorIndex wd \<longrightarrow>
           floorIndex = Finite (of_int i) \<and> wd ! nat i = Finite f \<and> wd ! nat (i + 1) = Finite c
           \<and> \<bar>c - f\<bar> < maxRange"
  shows "\<exists>r. getWindBandPercentageJS rocketAltitude wd floorIndex = Inr (Finite r)
         \<and> (r = - 1 \<longleftrightarrow>
              (\<not> withinArray floorIndex wd
               \<or> numberLess rocketAltitude (Finite f) \<or> numberGreater rocketAltitude (Finite c)
               \<or> f = c))
         \<and> (r \<noteq> - 1 \<longrightarrow>
              (\<exists>a. rocketAltitude = Finite a \<and> r = (a - f) / (c - f)) \<and> 0 \<le> r \<and> r \<le> 1)"
proof (cases "withinArray floorIndex wd")
  case False
  with num(2)
  have "getWindBandPercentageJS rocketAltitude wd floorIndex = Inr (Finite (- 1))"
    by (rule getWindBandPercentageJS_refused)
  with False show ?thesis by auto
next
  case True
  with band have whole: "floorIndex = Finite (of_int i)"
    and fl: "wd ! nat i = Finite f" and ce: "wd ! nat (i + 1) = Finite c"
    and height: "\<bar>c - f\<bar> < maxRange" by auto
  from True have idx: "0 \<le> i" "i + 1 < int (length wd)"
    unfolding whole withinArray_int by auto
  note body = getWindBandPercentageJS_inside [OF idx len fl ce, of rocketAltitude]
  have hgt: "numberMinus (Finite c) (Finite f) = Finite (c - f)"
    using height by (rule numberMinus_finite)
  show ?thesis
  proof (cases "numberLess rocketAltitude (Finite f) \<or> numberGreater rocketAltitude (Finite c)
      \<or> f = c")
    case out: True
    then have "getWindBandPercentageJS rocketAltitude wd floorIndex = Inr (Finite (- 1))"
      unfolding whole body hgt by (auto simp add: numberEquals_def)
    with out show ?thesis by auto
  next
    case out: False
    then obtain a where a: "rocketAltitude = Finite a"
      using num(1) by (cases rocketAltitude) (auto simp add: numberGreater_def)
    from out a have range: "f \<le> a" "a \<le> c" "f \<noteq> c"
      by (auto simp add: numberGreater_def)
    then have lt: "f < c" by linarith
    have "\<bar>a - f\<bar> < maxRange" using range height by linarith
    then have fall: "numberMinus (Finite a) (Finite f) = Finite (a - f)"
      by (rule numberMinus_finite)
    have lo: "0 \<le> (a - f) / (c - f)" using range lt by simp
    have hi: "(a - f) / (c - f) \<le> 1" using range lt by (simp add: divide_le_eq)
    have quot: "numberDivide (Finite \<bar>a - f\<bar>) (Finite \<bar>c - f\<bar>) = Finite ((a - f) / (c - f))"
      using numberDivide_fraction [of "a - f" "c - f"] range lt by simp
    have "getWindBandPercentageJS rocketAltitude wd floorIndex
        = Inr (Finite ((a - f) / (c - f)))"
      unfolding whole body unfolding a hgt fall using out a lt quot
      by (simp add: numberEquals_def numberGreater_def)
    moreover have "(a - f) / (c - f) \<noteq> - 1" using lo by linarith
    ultimately show ?thesis using out a lo hi True by auto
  qed
qed

theorem getWindBandPercentage_returns_witness:
  "getWindBandPercentageJS (Finite 250) [Finite 0, Finite 1000] (Finite 0) = Inr (Finite (1 / 4))
   \<and> getWindBandPercentageJS PositiveInfinity [Finite 0, Finite 1000] (Finite 0)
       = Inr (Finite (- 1))
   \<and> getWindBandPercentageJS (Finite 250) [Finite 0, Finite 1000] (Finite 1) = Inr (Finite (- 1))
   \<and> getWindBandPercentageJS (Finite 250) [Finite 0, Finite 1000] (Finite (- (1 / 2)))
       = Inr (Finite (- 1))
   \<and> getWindBandPercentageJS (Finite 250) [Finite 0, Finite 1000] PositiveInfinity
       = Inr (Finite (- 1))"
proof -
  let ?wd = "[Finite 0, Finite 1000]"
  have small: "\<bar>1000 - (0::real)\<bar> < maxRange"
    using maxRange_large by simp
  have len: "length ?wd < 2 ^ 32" by simp
  have band: "withinArray (Finite 0) ?wd \<longrightarrow>
      Finite 0 = Finite (of_int 0) \<and> ?wd ! nat 0 = Finite 0
      \<and> ?wd ! nat (0 + 1) = Finite 1000 \<and> \<bar>1000 - (0::real)\<bar> < maxRange"
    using small by simp
  have inside: "withinArray (Finite 0) ?wd" by (simp add: withinArray_def)
  have outside: "\<not> withinArray (Finite 1) ?wd" "\<not> withinArray (Finite (- (1 / 2))) ?wd"
    "\<not> withinArray PositiveInfinity ?wd"
    by (simp_all add: withinArray_def)
  from getWindBandPercentage_returns
    [of "Finite 250" "Finite 0" ?wd 0 0 1000, OF _ _ len band] inside
  have a: "getWindBandPercentageJS (Finite 250) ?wd (Finite 0) = Inr (Finite (1 / 4))"
    by (auto simp add: numberGreater_def)
  from getWindBandPercentage_returns
    [of PositiveInfinity "Finite 0" ?wd 0 0 1000, OF _ _ len band] inside
  have b: "getWindBandPercentageJS PositiveInfinity ?wd (Finite 0) = Inr (Finite (- 1))"
    by (auto simp add: numberGreater_def)
  from getWindBandPercentage_returns [of "Finite 250" "Finite 1" ?wd 0 0 1000, OF _ _ len]
    outside(1)
  have c: "getWindBandPercentageJS (Finite 250) ?wd (Finite 1) = Inr (Finite (- 1))"
    by auto
  from getWindBandPercentage_returns
    [of "Finite 250" "Finite (- (1 / 2))" ?wd 0 0 1000, OF _ _ len] outside(2)
  have d: "getWindBandPercentageJS (Finite 250) ?wd (Finite (- (1 / 2))) = Inr (Finite (- 1))"
    by auto
  from getWindBandPercentage_returns [of "Finite 250" PositiveInfinity ?wd 0 0 1000, OF _ _ len]
    outside(3)
  have e: "getWindBandPercentageJS (Finite 250) ?wd PositiveInfinity = Inr (Finite (- 1))"
    by auto
  from a b c d e show ?thesis by blast
qed

subsection \<open>The landing location of a result\<close>

text \<open>
  C10. \<^verbatim>\<open>getLandingLocation\<close> is total: it returns \<^verbatim>\<open>null\<close> (here \<open>None\<close>) exactly when the
  flight path is empty, and otherwise the location of the last point of the path. The only
  array read it makes is at the last index of a path that is not empty.
\<close>

theorem getLandingLocation_last:
  "(getLandingLocation sim = None \<longleftrightarrow> launchPath sim = [])
   \<and> getLandingLocation sim
       = (if launchPath sim = [] then None else Some (location (last (launchPath sim))))"
  by (simp add: getLandingLocation_def last_conv_nth)

theorem getLandingLocation_last_witness:
  "getLandingLocation
     (addLaunchPathPoint (newLaunchSimulationData 100 9) 0 \<lparr>latitude = 40, longitude = - 100\<rparr>)
     = Some \<lparr>latitude = 40, longitude = - 100\<rparr>
   \<and> getLandingLocation (newLaunchSimulationData 100 9) = None"
  using getLandingLocation_last
    [of "addLaunchPathPoint (newLaunchSimulationData 100 9) 0 \<lparr>latitude = 40, longitude = - 100\<rparr>"]
    getLandingLocation_last [of "newLaunchSimulationData 100 9"]
  by (simp add: addLaunchPathPoint_def newLaunchSimulationData_def newLaunchPathPoint_def)

subsection \<open>An apogee above the profile\<close>

text \<open>
  When every sample is below the apogee the search for its band runs to the end of the
  list, and the hour is left before a descent list is built.
\<close>

lemma searchWindIndex_above:
  "\<forall>s\<in>set ws. altitude s < a \<Longrightarrow> searchWindIndex ws a i = i + length ws"
  by (induction ws arbitrary: i) auto

lemma findWindIndex_above:
  assumes "wd \<noteq> []" and "\<forall>s\<in>set wd. altitude s < a"
  shows "findWindIndex wd a = length wd"
proof -
  from assms(2) have "\<forall>s\<in>set (drop 1 wd). altitude s < a"
    by (meson in_set_dropD)
  then have "searchWindIndex (drop 1 wd) a 1 = 1 + length (drop 1 wd)"
    by (rule searchWindIndex_above)
  with assms(1) show ?thesis
    by (cases wd) (simp_all add: findWindIndex_def)
qed

lemma buildDescentList_above:
  assumes "wd \<noteq> []" and "\<forall>s\<in>set wd. altitude s < a"
  shows "buildDescentList wd a dual mda drogue main = Inr None"
  using findWindIndex_above [OF assms] by (simp add: buildDescentList_def)

subsection \<open>Ground wind above the weathercock table\<close>

lemma weathercockAdjustment_tableEx:
  "weathercockAdjustment flatGeodesy launchSiteEx 270 12 tableEx = (- 1, launchSiteEx)"
  by (simp add: weathercockAdjustment_def tableEx_def)

lemma averageGroundWind_windSteady:
  "averageGroundWind (forecastEx windSteady) 1000 = Some (270, 12)"
  by (simp add: averageGroundWind_def forecastEx_def windSteady_def Math_round_def Let_def)

lemma apogeeOfHour_tableEx:
  "apogeeOfHour flatGeodesy
     ((inputsEx 1000)\<lparr>applyWeathercockAdjustment := True, weathercockData := tableEx\<rparr>)
     (forecastEx windSteady) = (1000, launchSiteEx)"
  by (simp add: apogeeOfHour_def inputsEx_def averageGroundWind_windSteady
        weathercockAdjustment_tableEx)

lemma weathercockAdjustmentChecked_tableEx:
  "weathercockAdjustmentChecked flatGeodesy launchSiteEx 270 12 tableEx
     = (1000, moveAlongBearing flatGeodesy launchSiteEx (feetToMeters flatGeodesy 120) 270)"
  by (simp add: weathercockAdjustmentChecked_def tableEx_def)

text \<open>
  \<^verbatim>\<open>RocketWeathercocking.weathercockAdjustment\<close> does clamp: for a table that is not empty and
  ascends in speed, and a ground wind above its last entry, the point it returns has the
  apogee of the last entry and the location moved by the upwind distance of the last entry
  along the ground wind direction.
\<close>

lemma rocketWeathercockAdjustment_clamps:
  assumes "table \<noteq> []" and "1.15078 * groundSpeed > wcWindSpeed (last table)"
    and "sorted (map wcWindSpeed table)"
  shows "rocketWeathercockAdjustment g a table loc groundSpeed dir
           = newLaunchPathPoint (apogee (last table))
               (moveAlongBearing g loc (feetToMeters g (upwindDistance (last table))) dir)"
proof -
  have "map wcWindSpeed table ! 0 \<le> map wcWindSpeed table ! (length table - 1)"
    using assms(1,3) by (intro sorted_nth_mono) auto
  then have "wcWindSpeed (table ! 0) \<le> wcWindSpeed (last table)"
    using assms(1) by (simp add: last_conv_nth)
  then show ?thesis
    using assms(1,2) by (simp add: rocketWeathercockAdjustment_def last_conv_nth Let_def)
qed

text \<open>
  C3. The claim: a ground wind above the highest entry of the table clamps to that entry, in
  apogee and in displacement. With the table for 0, 5 and 10 mph and a ground wind of 12 mph
  from 270 degrees, \<^verbatim>\<open>weathercockAdjustment\<close> of \<^verbatim>\<open>main.js\<close> finds no entry: it returns \<open>- 1\<close>
  and leaves the location where it was, and the hour falls back to the entered apogee of
  1000 feet at the launch site, where the claim has 900 feet, 120 feet upwind. The later
  \<^verbatim>\<open>main.js\<close> moves the location by the 120 feet of the highest entry but returns the apogee
  of the first entry, 1000 feet.
\<close>

theorem weathercockAdjustment_above_table:
  "weathercockAdjustment flatGeodesy launchSiteEx 270 12 tableEx = (- 1, launchSiteEx)
   \<and> apogeeOfHour flatGeodesy
        ((inputsEx 1000)\<lparr>applyWeathercockAdjustment := True, weathercockData := tableEx\<rparr>)
        (forecastEx windSteady) = (1000, launchSiteEx)
   \<and> weathercockAdjustmentChecked flatGeodesy launchSiteEx 270 12 tableEx
       = (1000, moveAlongBearing flatGeodesy launchSiteEx (feetToMeters flatGeodesy 120) 270)
   \<and> apogee (last tableEx) = 900 \<and> upwindDistance (last tableEx) = 120
   \<and> wcWindSpeed (last tableEx) < 12"
  using weathercockAdjustment_tableEx apogeeOfHour_tableEx weathercockAdjustmentChecked_tableEx
  by (simp add: tableEx_def)

subsection \<open>The deployment of the main parachute at a sample\<close>

lemma ascending_nth:
  "ascending wd \<Longrightarrow> i < j \<Longrightarrow> j < length wd \<Longrightarrow> altitude (wd ! i) < altitude (wd ! j)"
  unfolding ascending_def
  using sorted_wrt_nth_less [of "(<)" "map altitude wd" i j] by simp

lemma searchWindIndex_found:
  "searchWindIndex ws a i \<noteq> i + length ws \<Longrightarrow>
     i \<le> searchWindIndex ws a i \<and> searchWindIndex ws a i < i + length ws
     \<and> a \<le> altitude (ws ! (searchWindIndex ws a i - i))
     \<and> (\<forall>n < searchWindIndex ws a i - i. altitude (ws ! n) < a)"
proof (induction ws arbitrary: i)
  case Nil
  then show ?case by simp
next
  case (Cons w ws)
  show ?case
  proof (cases "a \<le> altitude w")
    case True
    then show ?thesis by simp
  next
    case False
    with Cons.prems have ne: "searchWindIndex ws a (Suc i) \<noteq> Suc i + length ws" by simp
    from Cons.IH [OF ne] have ih: "Suc i \<le> searchWindIndex ws a (Suc i)"
      "searchWindIndex ws a (Suc i) < Suc i + length ws"
      "a \<le> altitude (ws ! (searchWindIndex ws a (Suc i) - Suc i))"
      "\<forall>n < searchWindIndex ws a (Suc i) - Suc i. altitude (ws ! n) < a"
      by auto
    let ?k = "searchWindIndex ws a (Suc i)"
    have eq: "searchWindIndex (w # ws) a i = ?k" using False by simp
    have idx: "?k - i = Suc (?k - Suc i)" using ih(1) by simp
    have below: "\<forall>n < ?k - i. altitude ((w # ws) ! n) < a"
    proof (intro allI impI)
      fix n assume "n < ?k - i"
      then show "altitude ((w # ws) ! n) < a"
        using False ih(4) idx by (cases n) auto
    qed
    show ?thesis unfolding eq using ih(1,2,3) idx below by simp
  qed
qed

lemma findWindIndex_found:
  assumes "wd \<noteq> []" and "findWindIndex wd a \<noteq> length wd"
  shows "1 \<le> findWindIndex wd a \<and> findWindIndex wd a < length wd
         \<and> a \<le> altitude (wd ! findWindIndex wd a)
         \<and> (\<forall>k. 1 \<le> k \<and> k < findWindIndex wd a \<longrightarrow> altitude (wd ! k) < a)"
proof -
  from assms(1) obtain w ws where wd: "wd = w # ws" by (cases wd) auto
  let ?k = "searchWindIndex ws a 1"
  have k: "findWindIndex wd a = ?k" by (simp add: findWindIndex_def wd)
  with assms(2) have "?k \<noteq> 1 + length ws" by (simp add: wd)
  from searchWindIndex_found [OF this]
  have f: "1 \<le> ?k" "?k < 1 + length ws" "a \<le> altitude (ws ! (?k - 1))"
    "\<forall>n < ?k - 1. altitude (ws ! n) < a" by auto
  have at: "wd ! ?k = ws ! (?k - 1)" using f(1) by (simp add: wd nth_Cons')
  have below: "\<forall>k. 1 \<le> k \<and> k < ?k \<longrightarrow> altitude (wd ! k) < a"
  proof (intro allI impI)
    fix n assume n: "1 \<le> n \<and> n < ?k"
    then have "n - 1 < ?k - 1" by linarith
    with f(4) have "altitude (ws ! (n - 1)) < a" by blast
    with n show "altitude (wd ! n) < a" by (simp add: wd nth_Cons')
  qed
  show ?thesis unfolding k using f(1,2,3) at below by (simp add: wd)
qed







subsection \<open>No wind\<close>

lemma descendBands_invariant:
  assumes run: "descendBands wd mda main c (a, rc, acc) = Inr (a', rc', dl)"
    and start: "P c a rc acc"
    and level: "\<And>i a rc acc. Suc i < length wd \<Longrightarrow> P (Suc i) a rc acc
        \<Longrightarrow> altitude (wd ! Suc i) \<le> altitude (wd ! i)
        \<Longrightarrow> P i (altitude (wd ! i)) rc acc"
    and on: "\<And>i a rc acc m. Suc i < length wd \<Longrightarrow> P (Suc i) a rc acc
        \<Longrightarrow> altitude (wd ! i) < altitude (wd ! Suc i) \<Longrightarrow> altitude (wd ! i) = mda
        \<Longrightarrow> main = Num m
        \<Longrightarrow> P i a main (acc @ [rawStep wd m i])"
    and inside: "\<And>i a rc acc m. Suc i < length wd \<Longrightarrow> P (Suc i) a rc acc
        \<Longrightarrow> altitude (wd ! i) < mda \<Longrightarrow> mda < altitude (wd ! Suc i)
        \<Longrightarrow> main = Num m
        \<Longrightarrow> P i a main
              (acc @ [\<lparr>stepAltitude = mda, descentRate = m,
                        stepWindSpeed = getAverageWindSpeed
                          (getWindBandPercentage mda wd (int i)) wd (int i),
                        stepWindDirection = getAverageWindDirection
                          (getWindBandPercentage mda wd (int i)) wd (int i)\<rparr>,
                      rawStep wd m i])"
    and plain: "\<And>i a rc acc r. Suc i < length wd \<Longrightarrow> P (Suc i) a rc acc
        \<Longrightarrow> altitude (wd ! i) < altitude (wd ! Suc i) \<Longrightarrow> altitude (wd ! i) \<noteq> mda
        \<Longrightarrow> \<not> (altitude (wd ! i) < mda \<and> mda < altitude (wd ! Suc i))
        \<Longrightarrow> rc = Num r
        \<Longrightarrow> P i a rc (acc @ [rawStep wd r i])"
  shows "P 0 a' rc' dl"
  using run start
proof (induction c arbitrary: a rc acc)
  case 0
  then show ?case by simp
next
  case (Suc i)
  from Suc.prems(1) have len: "Suc i < length wd"
    by (simp split: if_splits)
  let ?lo = "altitude (wd ! i)" and ?up = "altitude (wd ! Suc i)"
  show ?case
  proof (cases "?up \<le> ?lo")
    case True
    with Suc.prems(1) len
    have "descendBands wd mda main i (?lo, rc, acc) = Inr (a', rc', dl)"
      by (simp add: Let_def)
    from Suc.IH [OF this level [OF len Suc.prems(2) True]] show ?thesis .
  next
    case False
    then have asc: "?lo < ?up" by simp
    show ?thesis
    proof (cases "?lo = mda")
      case True
      with Suc.prems(1) len asc obtain m where m: "main = Num m"
        and rec: "descendBands wd mda main i (a, main, acc @ [rawStep wd m i])
                    = Inr (a', rc', dl)"
        by (auto simp add: Let_def newDescentData_def rawStep_def split: jsnum.splits)
      from Suc.IH [OF rec on [OF len Suc.prems(2) asc True m]] show ?thesis .
    next
      case ne: False
      show ?thesis
      proof (cases "?lo < mda \<and> mda < ?up")
        case True
        with Suc.prems(1) len asc ne obtain m where m: "main = Num m"
          and rec: "descendBands wd mda main i (a, main,
              acc @ [\<lparr>stepAltitude = mda, descentRate = m,
                        stepWindSpeed = getAverageWindSpeed
                          (getWindBandPercentage mda wd (int i)) wd (int i),
                        stepWindDirection = getAverageWindDirection
                          (getWindBandPercentage mda wd (int i)) wd (int i)\<rparr>,
                      rawStep wd m i]) = Inr (a', rc', dl)"
          by (auto simp add: Let_def newDescentData_def rawStep_def split: jsnum.splits)
        from True have lo: "?lo < mda" and up: "mda < ?up" by simp_all
        from Suc.IH [OF rec inside [OF len Suc.prems(2) lo up m]] show ?thesis .
      next
        case False
        with Suc.prems(1) len asc ne obtain r where r: "rc = Num r"
          and rec: "descendBands wd mda main i (a, rc, acc @ [rawStep wd r i])
                      = Inr (a', rc', dl)"
          by (auto simp add: Let_def newDescentData_def rawStep_def split: jsnum.splits)
        from Suc.IH [OF rec plain [OF len Suc.prems(2) asc ne False r]] show ?thesis .
      qed
    qed
  qed
qed

lemma getAverageWindSpeed_calm:
  assumes "calm wd" and "Suc i < length wd"
    and "altitude (wd ! i) \<le> x" and "x \<le> altitude (wd ! Suc i)"
    and "altitude (wd ! i) < altitude (wd ! Suc i)"
  shows "getAverageWindSpeed (getWindBandPercentage x wd (int i)) wd (int i) = 0"
proof -
  let ?p = "getWindBandPercentage x wd (int i)"
  have nat: "nat (int i + 1) = Suc i" by simp
  have p: "?p = (x - altitude (wd ! i)) / (altitude (wd ! Suc i) - altitude (wd ! i))"
    using assms(2-5) by (simp add: getWindBandPercentage_def Let_def nat)
  have lo: "0 \<le> ?p" unfolding p using assms(3,5) by simp
  have hi: "?p \<le> 1" unfolding p using assms(4,5) by (simp add: divide_le_eq)
  have s: "windSpeed (wd ! i) = 0" "windSpeed (wd ! Suc i) = 0"
    using assms(1,2) by (simp_all add: calm_def)
  show ?thesis using lo hi assms(2) s by (simp add: getAverageWindSpeed_def Let_def nat)
qed

lemma descendBands_calm:
  assumes "calm wd"
    and "descendBands wd mda main c (a, rc, acc) = Inr (a', rc', dl)"
    and "\<forall>d\<in>set acc. stepWindSpeed d = 0"
  shows "\<forall>d\<in>set dl. stepWindSpeed d = 0"
proof -
  have raw: "Suc i < length wd \<Longrightarrow> stepWindSpeed (rawStep wd m i) = 0" for i m
    using assms(1) by (simp add: calm_def rawStep_def)
  have avg: "Suc i < length wd \<Longrightarrow> altitude (wd ! i) < mda \<Longrightarrow> mda < altitude (wd ! Suc i)
      \<Longrightarrow> getAverageWindSpeed (getWindBandPercentage mda wd (int i)) wd (int i) = 0" for i
    using getAverageWindSpeed_calm [OF assms(1), of i mda] by simp
  show ?thesis
    by (rule descendBands_invariant
          [where P = "\<lambda>c a rc acc. \<forall>d\<in>set acc. stepWindSpeed d = 0", OF assms(2,3)])
       (simp_all add: raw avg)
qed

lemma buildDescentList_Nil:
  "buildDescentList [] a dual mda drogue main \<noteq> Inr x"
proof -
  have "descendBands [] mda main (Suc 0) st = Inl TypeError" for st
    by (cases st) simp
  then show ?thesis
    by (simp add: buildDescentList_def findWindIndex_def Let_def split: sum.splits)
qed

lemma searchWindIndex_ge: "i \<le> searchWindIndex ws a i"
proof (induction ws arbitrary: i)
  case Nil
  then show ?case by simp
next
  case (Cons w ws)
  from Cons [of "i + 1"] show ?case by simp
qed

lemma findWindIndex_ge1: "1 \<le> findWindIndex wd a"
  unfolding findWindIndex_def by (rule searchWindIndex_ge)

lemma buildDescentList_SomeE:
  assumes "buildDescentList wd a dual mda drogue main = Inr (Some (a', dl))"
  obtains apogeeStep rc' where "wd \<noteq> []" and "findWindIndex wd a \<noteq> length wd"
    and "newDescentData a (if dual then drogue else main)
           (getAverageWindSpeed
              (getWindBandPercentage a wd (int (findWindIndex wd a - 1))) wd
              (int (findWindIndex wd a - 1)))
           (getAverageWindDirection
              (getWindBandPercentage a wd (int (findWindIndex wd a - 1))) wd
              (int (findWindIndex wd a - 1))) = Inr apogeeStep"
    and "descendBands wd mda main (findWindIndex wd a)
           (a, if dual then drogue else main, [apogeeStep]) = Inr (a', rc', dl)"
proof -
  have ne: "wd \<noteq> []"
    using assms buildDescentList_Nil [of a dual mda drogue main] by auto
  have suc: "Suc (findWindIndex wd a - 1) = findWindIndex wd a"
    using findWindIndex_ge1 [of wd a] by simp
  have inrange: "findWindIndex wd a \<noteq> length wd"
    using assms by (auto simp add: buildDescentList_def Let_def)
  from assms inrange obtain apogeeStep rc' where
    "newDescentData a (if dual then drogue else main)
           (getAverageWindSpeed
              (getWindBandPercentage a wd (int (findWindIndex wd a - 1))) wd
              (int (findWindIndex wd a - 1)))
           (getAverageWindDirection
              (getWindBandPercentage a wd (int (findWindIndex wd a - 1))) wd
              (int (findWindIndex wd a - 1))) = Inr apogeeStep"
    and "descendBands wd mda main (findWindIndex wd a)
           (a, if dual then drogue else main, [apogeeStep]) = Inr (a', rc', dl)"
    unfolding buildDescentList_def Let_def suc
    by (auto simp del: descendBands.simps split: sum.splits)
  with ne inrange that show thesis by blast
qed

lemma buildDescentList_calm:
  assumes calm: "calm wd" and low: "altitude (wd ! 0) \<le> a"
    and built: "buildDescentList wd a dual mda drogue main = Inr (Some (a', dl))"
    and len: "2 \<le> length dl"
  shows "\<forall>d\<in>set dl. stepWindSpeed d = 0"
proof -
  let ?w = "findWindIndex wd a"
  let ?p = "getWindBandPercentage a wd (int (?w - 1))"
  from built obtain apogeeStep rc' where ne: "wd \<noteq> []" and inrange: "?w \<noteq> length wd"
    and ap: "newDescentData a (if dual then drogue else main)
               (getAverageWindSpeed ?p wd (int (?w - 1)))
               (getAverageWindDirection ?p wd (int (?w - 1))) = Inr apogeeStep"
    and run: "descendBands wd mda main ?w (a, if dual then drogue else main, [apogeeStep])
               = Inr (a', rc', dl)"
    by (rule buildDescentList_SomeE)
  from findWindIndex_found [OF ne inrange]
  have w: "1 \<le> ?w" "?w < length wd" "a \<le> altitude (wd ! ?w)"
    "\<forall>k. 1 \<le> k \<and> k < ?w \<longrightarrow> altitude (wd ! k) < a" by auto
  have suc: "Suc (?w - 1) = ?w" using w(1) by simp
  have band: "altitude (wd ! (?w - 1)) < altitude (wd ! ?w)"
  proof (cases "?w = 1")
    case True
    show ?thesis
    proof (rule ccontr)
      assume "\<not> altitude (wd ! (?w - 1)) < altitude (wd ! ?w)"
      then have level: "altitude (wd ! Suc 0) \<le> altitude (wd ! 0)" using True by simp
      from run True have "descendBands wd mda main (Suc 0)
          (a, if dual then drogue else main, [apogeeStep]) = Inr (a', rc', dl)"
        by simp
      with level w(2) True have "dl = [apogeeStep]"
        by (simp add: Let_def)
      with len show False by simp
    qed
  next
    case False
    with w(1) have "1 \<le> ?w - 1 \<and> ?w - 1 < ?w" by simp
    with w(4) have "altitude (wd ! (?w - 1)) < a" by fastforce
    with w(3) show ?thesis by linarith
  qed
  have floor: "altitude (wd ! (?w - 1)) \<le> a"
  proof (cases "?w = 1")
    case True
    then show ?thesis using low by simp
  next
    case False
    with w(1) have "1 \<le> ?w - 1 \<and> ?w - 1 < ?w" by simp
    with w(4) show ?thesis by fastforce
  qed
  have top: "getAverageWindSpeed ?p wd (int (?w - 1)) = 0"
    using getAverageWindSpeed_calm [OF calm, of "?w - 1" a] w(2,3) floor band suc by simp
  from ap top have "stepWindSpeed apogeeStep = 0"
    by (auto simp add: newDescentData_def split: jsnum.splits)
  then have "\<forall>d\<in>set [apogeeStep]. stepWindSpeed d = 0" by simp
  from descendBands_calm [OF calm run this] show ?thesis .
qed

lemma driftWithWind_calm:
  assumes "\<forall>l b. moveAlongBearingKilometers g l (feetToMeters g 0) b = l"
  shows "fst (driftWithWind g loc 0 dir rate fall) = loc"
  using assms by (simp add: driftWithWind_def Let_def split: jsnum.splits)

lemma integrateDescent_calm:
  assumes still: "\<forall>l b. moveAlongBearingKilometers g l (feetToMeters g 0) b = l"
    and calm: "\<forall>d\<in>set dl. stepWindSpeed d = 0"
  shows "fst (integrateDescent g dl (loc, r, sim)) = loc
         \<and> launchPath (snd (snd (integrateDescent g dl (loc, r, sim))))
             = launchPath sim @ map (\<lambda>d. newLaunchPathPoint (stepAltitude d) loc) (tl dl)"
  using calm
proof (induction dl arbitrary: r sim)
  case Nil
  then show ?case by simp
next
  case (Cons previous rest)
  show ?case
  proof (cases rest)
    case Nil
    then show ?thesis by simp
  next
    case (Cons current rest')
    from Cons.prems Cons have zero: "(stepWindSpeed current + stepWindSpeed previous) / 2 = 0"
      by simp
    have keep: "fst (driftWithWind g loc 0
        (stepAverageDirection (stepWindDirection previous) (stepWindDirection current))
        (Num r) (stepAltitude previous - stepAltitude current)) = loc"
      by (rule driftWithWind_calm [OF still])
    from Cons.prems have "\<forall>d\<in>set rest. stepWindSpeed d = 0" by simp
    from Cons.IH [OF this, of "descentRate current"
        "addLaunchPathPoint sim (stepAltitude current) loc"]
    show ?thesis
      unfolding Cons by (simp add: Let_def zero keep addLaunchPathPoint_def)
  qed
qed

lemma Math_round_zero: "Math_round 0 = 0"
  by (simp add: Math_round_def)

lemma sum_list_calm:
  "\<forall>s\<in>set ws. windSpeed s = 0 \<Longrightarrow> sum_list (map windSpeed ws) = 0"
  by (induction ws) auto

lemma averageGroundWind_calm:
  assumes "calm (windData fc)" and "windData fc \<noteq> []"
  shows "\<exists>dir. averageGroundWind fc ap = Some (dir, 0)"
proof -
  have zero: "sum_list (map windSpeed (take n (windData fc))) = 0" for n
  proof -
    have "\<forall>s\<in>set (take n (windData fc)). windSpeed s = 0"
      using assms(1) by (auto simp add: calm_def dest: in_set_takeD)
    then show ?thesis by (rule sum_list_calm)
  qed
  from assms(2) have "0 < length (windData fc)" by simp
  then show ?thesis
    by (auto simp add: averageGroundWind_def Let_def zero Math_round_zero)
qed

lemma linearInterpolate_base:
  assumes "0 < s1"
  shows "linearInterpolate 0 s1 0 d1 0 = 0"
proof -
  have "(0 - s1) * ((0 - d1) / (0 - s1)) = - d1"
    using assms by simp
  then show ?thesis using assms by (simp add: linearInterpolate_def)
qed

lemma weathercockLoop_calm:
  assumes "loadedTable table" and "\<forall>l b. moveAlongBearing g l (feetToMeters g 0) b = l"
  shows "snd (weathercockLoop g loc dir 0 table) = loc"
proof -
  from assms(1) obtain e0 rest where table: "table = e0 # rest"
    and e0: "wcWindSpeed e0 = 0" "upwindDistance e0 = 0"
    and rest: "\<forall>e\<in>set rest. 0 < wcWindSpeed e"
    by (cases table) (auto simp add: loadedTable_def)
  show ?thesis
  proof (cases rest)
    case Nil
    then show ?thesis by (simp add: table)
  next
    case (Cons e1 rest')
    with rest have pos: "0 < wcWindSpeed e1" by simp
    have "linearInterpolate 0 (wcWindSpeed e1) 0 (upwindDistance e1) 0 = 0"
      by (rule linearInterpolate_base [OF pos])
    then show ?thesis
      using pos assms(2) by (simp add: table Cons e0 Let_def)
  qed
qed

lemma apogeeOfHour_calm:
  assumes "calm (windData fc)" and "windData fc \<noteq> []"
    and "applyWeathercockAdjustment inputs \<longrightarrow>
           loadedTable (weathercockData inputs)
           \<and> (\<forall>l b. moveAlongBearing g l (feetToMeters g 0) b = l)"
  shows "snd (apogeeOfHour g inputs fc) = launchLocation inputs"
proof (cases "applyWeathercockAdjustment inputs")
  case False
  then show ?thesis by (simp add: apogeeOfHour_def)
next
  case True
  from averageGroundWind_calm [OF assms(1,2), of "rocketApogee inputs"]
  obtain dir where gw: "averageGroundWind fc (rocketApogee inputs) = Some (dir, 0)" by blast
  from True assms(3) have "snd (weathercockLoop g (launchLocation inputs) dir 0
      (weathercockData inputs)) = launchLocation inputs"
    by (simp add: weathercockLoop_calm)
  then show ?thesis
    using True by (simp add: apogeeOfHour_def gw weathercockAdjustment_def Let_def split_beta)
qed

lemma simulateHour_SomeE:
  assumes "simulateHour g inputs hour fc = Inr (Some sim)"
  obtains a' dl where
    "buildDescentList (windData fc) (fst (apogeeOfHour g inputs fc))
       (usingDualDeployoment inputs) (mainDeployAltitude inputs)
       (Num (drogueDecentRate inputs)) (Num (mainDescentRate inputs)) = Inr (Some (a', dl))"
    and "2 \<le> length dl"
    and "sim = snd (snd (integrateDescent g dl
           (snd (apogeeOfHour g inputs fc), descentRate (dl ! 0),
            addLaunchPathPoint
              (addLaunchPathPoint
                 (newLaunchSimulationData
                    (case siteElevation inputs of
                       None \<Rightarrow> groundElevation fc
                     | Some e \<Rightarrow> if e < 0 then groundElevation fc else e) hour)
                 0 (launchLocation inputs))
              a' (snd (apogeeOfHour g inputs fc)))))"
  using assms
  by (auto simp add: simulateHour_def Let_def split_beta
        split: sum.splits option.splits if_splits)

lemma newLaunchPathPoint_location: "location (newLaunchPathPoint alt loc) = loc"
  by (simp add: newLaunchPathPoint_def)

lemma flat_still:
  "\<forall>l b. moveAlongBearingKilometers flatGeodesy l (feetToMeters flatGeodesy 0) b = l"
  "\<forall>l b. moveAlongBearing flatGeodesy l (feetToMeters flatGeodesy 0) b = l"
  by (simp_all add: flatGeodesy_def flatMove_def)

lemma averageGroundWind_windCalm: "averageGroundWind (forecastEx windCalm) 1000 = Some (275, 0)"
  by (simp add: averageGroundWind_def forecastEx_def windCalm_def Math_round_def Let_def)

lemma weathercockAdjustment_windCalm:
  "weathercockAdjustment flatGeodesy launchSiteEx 275 0 tableEx = (1000, launchSiteEx)"
  by (simp add: weathercockAdjustment_def tableEx_def linearInterpolate_def Let_def flat_still)

lemma apogeeOfHour_inputsCalm:
  "apogeeOfHour flatGeodesy inputsCalm (forecastEx windCalm) = (1000, launchSiteEx)"
  by (simp add: apogeeOfHour_def inputsCalm_def inputsDualEx_def inputsEx_def averageGroundWind_windCalm
        weathercockAdjustment_windCalm)

lemma buildDescentList_windCalm:
  "buildDescentList windCalm 1000 True 500 (Num 75) (Num 20) = Inr (Some (1000, calmList))"
  by (simp add: buildDescentList_def windCalm_def findWindIndex_def getWindBandPercentage_def
        getAverageWindSpeed_def getAverageWindDirection_def newDescentData_def Let_def
        calmList_def)

lemma driftWithWind_flat_calm: "fst (driftWithWind flatGeodesy loc 0 dir rate fall) = loc"
  by (rule driftWithWind_calm [OF flat_still(1)])

lemma integrateDescent_calmList: "integrateDescent flatGeodesy calmList (launchSiteEx, 75, sim)
    = (launchSiteEx, 20, addLaunchPathPoint (addLaunchPathPoint sim 500 launchSiteEx) 0 launchSiteEx)"
  by (simp add: calmList_def Let_def driftWithWind_flat_calm)

lemma simulateHour_inputsCalm: "simulateHour flatGeodesy inputsCalm 9 (forecastEx windCalm)
   = Inr (Some \<lparr>time = 9,
                     launchPath =
                       [\<lparr>pointAltitude = 0, location = launchSiteEx\<rparr>,
                        \<lparr>pointAltitude = 1000, location = launchSiteEx\<rparr>,
                        \<lparr>pointAltitude = 500, location = launchSiteEx\<rparr>,
                        \<lparr>pointAltitude = 0, location = launchSiteEx\<rparr>],
                     elevation = 100\<rparr>)"
proof -
  have len: "length calmList = 3" and rate: "descentRate (calmList ! 0) = 75"
    by (simp_all add: calmList_def)
  have inp: "usingDualDeployoment inputsCalm" "mainDeployAltitude inputsCalm = 500"
    "drogueDecentRate inputsCalm = 75" "mainDescentRate inputsCalm = 20"
    "siteElevation inputsCalm = None" "launchLocation inputsCalm = launchSiteEx"
    by (simp_all add: inputsCalm_def inputsDualEx_def inputsEx_def)
  have fc: "windData (forecastEx windCalm) = windCalm" "groundElevation (forecastEx windCalm) = 100"
    by (simp_all add: forecastEx_def)
  show ?thesis
    unfolding simulateHour_def apogeeOfHour_inputsCalm
    by (simp add: Let_def inp fc buildDescentList_windCalm len rate integrateDescent_calmList)
       (simp add: addLaunchPathPoint_def newLaunchSimulationData_def
          newLaunchPathPoint_def launchSiteEx_def)
qed

text \<open>
  A flight that stays below the lowest sample: in the calm profile whose lowest sample is at
  100 feet, a flight to 50 feet.
\<close>

lemma buildDescentList_lowList:
  "buildDescentList windRaised 50 False (- 1) (Num 20) (Num 20) = Inr (Some (50, lowList))"
  by (simp add: buildDescentList_def windRaised_def findWindIndex_def getWindBandPercentage_def
        getAverageWindSpeed_def getAverageWindDirection_def newDescentData_def Let_def
        lowList_def)

lemma driftWithWind_lowList:
  "driftWithWind flatGeodesy launchSiteEx (- (1 / 2)) (629 / 2) (Num 20) (- 50)
   = (flatMove launchSiteEx (64305561 / 100000000) (269 / 2), Some (168781 / 80000))"
  by (simp add: driftWithWind_def Let_def flatGeodesy_def)

lemma stepAverageDirection_lowList: "stepAverageDirection (- 1) 270 = 629 / 2"
  by (simp add: stepAverageDirection_def Let_def)

lemma integrateDescent_lowList: "integrateDescent flatGeodesy lowList (launchSiteEx, 20, sim)
   = (flatMove launchSiteEx (64305561 / 100000000) (269 / 2), 20,
      addLaunchPathPoint sim 100 (flatMove launchSiteEx (64305561 / 100000000) (269 / 2)))"
  by (simp add: lowList_def Let_def stepAverageDirection_lowList driftWithWind_lowList)

lemma flatMove_lowList: "flatMove launchSiteEx (64305561 / 100000000) (269 / 2) \<noteq> launchSiteEx"
  by (simp add: flatMove_def launchSiteEx_def northShare_def eastShare_def)

lemma inputsEx_fields:
  "usingDualDeployoment (inputsEx a) = False"
  "mainDeployAltitude (inputsEx a) = - 1"
    "drogueDecentRate (inputsEx a) = 20" "mainDescentRate (inputsEx a) = 20"
    "siteElevation (inputsEx a) = None" "launchLocation (inputsEx a) = launchSiteEx"
    "apogeeOfHour g (inputsEx a) fc = (a, launchSiteEx)"
  by (simp_all add: inputsEx_def apogeeOfHour_def)

lemma forecastEx_fields:
  "windData (forecastEx samples) = samples"
  "groundElevation (forecastEx samples) = 100"
  by (simp_all add: forecastEx_def)

lemma simulateHour_lowList: "simulateHour flatGeodesy (inputsEx 50) 9 (forecastEx windRaised)
   = Inr (Some \<lparr>time = 9,
        launchPath =
          [\<lparr>pointAltitude = 0, location = launchSiteEx\<rparr>,
           \<lparr>pointAltitude = 50, location = launchSiteEx\<rparr>,
           \<lparr>pointAltitude = 100, location = flatMove launchSiteEx (64305561 / 100000000) (269 / 2)\<rparr>],
        elevation = 100\<rparr>)"
proof -
  have len: "length lowList = 2" and rate: "descentRate (lowList ! 0) = 20"
    by (simp_all add: lowList_def)
  show ?thesis
    unfolding simulateHour_def inputsEx_fields forecastEx_fields
    by (simp add: Let_def buildDescentList_lowList len rate integrateDescent_lowList)
       (simp add: addLaunchPathPoint_def newLaunchSimulationData_def
          newLaunchPathPoint_def launchSiteEx_def flatMove_def)
qed

lemma simulateHour_above_windRaised:
  "simulateHour flatGeodesy (inputsEx 2000) 9 (forecastEx windRaised) = Inr None"
proof -
  have "buildDescentList windRaised 2000 False (- 1) (Num 20) (Num 20) = Inr None"
    by (rule buildDescentList_above) (simp_all add: windRaised_def)
  then show ?thesis
    unfolding simulateHour_def inputsEx_fields forecastEx_fields by (simp add: Let_def)
qed

text \<open>
  C7. In a calm profile the landing point is to be the launch point, every step drifting by
  a distance of zero. The code does not do this for a flight that stays below the lowest
  sample. In the calm profile with samples at 100 and 1000 feet, a flight to 50 feet at
  20 ft/s gets a result. The search takes the band from 100 to 1000 feet for the band of the
  apogee; the apogee is outside it, \<^verbatim>\<open>getWindBandPercentage\<close>, \<^verbatim>\<open>getAverageWindSpeed\<close> and
  \<^verbatim>\<open>getAverageWindDirection\<close> return their sentinel \<open>- 1\<close>, and the loop takes that for a wind of
  \<open>- 1\<close> knots from \<open>- 1\<close> degrees at the apogee. The one integration step, from 50 feet to the
  sample at 100 feet, drifts by \<open>168781 / 80000\<close> feet, about 2.1, and the path ends away from
  the launch site. On the other side of the profile the code has the check that is missing
  here: a flight to 2000 feet, above the highest sample, leaves the hour without a result.
\<close>

theorem calm_wind_below_profile_drifts:
  "map windSpeed windRaised = [0, 0]
   \<and> simulateHour flatGeodesy (inputsEx 50) 9 (forecastEx windRaised)
       = Inr (Some \<lparr>time = 9,
            launchPath =
              [\<lparr>pointAltitude = 0, location = launchSiteEx\<rparr>,
               \<lparr>pointAltitude = 50, location = launchSiteEx\<rparr>,
               \<lparr>pointAltitude = 100,
                  location = flatMove launchSiteEx (64305561 / 100000000) (269 / 2)\<rparr>],
            elevation = 100\<rparr>)
   \<and> flatMove launchSiteEx (64305561 / 100000000) (269 / 2) \<noteq> launchSiteEx
   \<and> snd (driftWithWind flatGeodesy launchSiteEx (- (1 / 2)) (629 / 2) (Num 20) (- 50))
       = Some (168781 / 80000)
   \<and> simulateHour flatGeodesy (inputsEx 2000) 9 (forecastEx windRaised) = Inr None"
  using simulateHour_lowList flatMove_lowList driftWithWind_lowList
    simulateHour_above_windRaised
  by (simp add: windRaised_def)

text \<open>
  Where the lowest sample is not above the apogee the descent starts from, a calm profile
  does what C7 says, in whatever order its samples are. Let a move by zero feet leave a
  location where it is and, where the weathercock adjustment is applied, let its table be a
  loaded one. Then in every hour that gives a result, with any rates and any deployment,
  every point of the flight path is at the launch location, and so is the landing location:
  each integration step drifts by a distance of zero, or, at a rate of zero, not at all.
\<close>

theorem calm_wind_lands_at_launch:
  assumes calm: "calm (windData fc)"
    and low: "altitude (windData fc ! 0) \<le> fst (apogeeOfHour g inputs fc)"
    and still: "\<forall>l b. moveAlongBearingKilometers g l (feetToMeters g 0) b = l"
    and upwind: "applyWeathercockAdjustment inputs \<longrightarrow>
           loadedTable (weathercockData inputs)
           \<and> (\<forall>l b. moveAlongBearing g l (feetToMeters g 0) b = l)"
    and result: "simulateHour g inputs hour fc = Inr (Some sim)"
  shows "getLandingLocation sim = Some (launchLocation inputs)
         \<and> (\<forall>p\<in>set (launchPath sim). location p = launchLocation inputs)"
proof -
  from result obtain a' dl where
    built: "buildDescentList (windData fc) (fst (apogeeOfHour g inputs fc))
       (usingDualDeployoment inputs) (mainDeployAltitude inputs)
       (Num (drogueDecentRate inputs)) (Num (mainDescentRate inputs)) = Inr (Some (a', dl))"
    and len: "2 \<le> length dl"
    and sim: "sim = snd (snd (integrateDescent g dl
           (snd (apogeeOfHour g inputs fc), descentRate (dl ! 0),
            addLaunchPathPoint
              (addLaunchPathPoint
                 (newLaunchSimulationData
                    (case siteElevation inputs of
                       None \<Rightarrow> groundElevation fc
                     | Some e \<Rightarrow> if e < 0 then groundElevation fc else e) hour)
                 0 (launchLocation inputs))
              a' (snd (apogeeOfHour g inputs fc)))))"
    by (rule simulateHour_SomeE)
  have ne: "windData fc \<noteq> []"
    using built by (rule buildDescentList_SomeE)
  have start: "snd (apogeeOfHour g inputs fc) = launchLocation inputs"
    by (rule apogeeOfHour_calm [OF calm ne upwind])
  have steps: "\<forall>d\<in>set dl. stepWindSpeed d = 0"
    by (rule buildDescentList_calm [OF calm low built len])
  have path: "launchPath sim
      = [newLaunchPathPoint 0 (launchLocation inputs),
         newLaunchPathPoint a' (launchLocation inputs)]
        @ map (\<lambda>d. newLaunchPathPoint (stepAltitude d) (launchLocation inputs)) (tl dl)"
    unfolding sim start
    using integrateDescent_calm [OF still steps]
    by (simp add: addLaunchPathPoint_def newLaunchSimulationData_def)
  have all: "\<forall>p\<in>set (launchPath sim). location p = launchLocation inputs"
    unfolding path by (auto simp add: newLaunchPathPoint_location)
  have "launchPath sim \<noteq> []" unfolding path by simp
  then have "getLandingLocation sim = Some (location (last (launchPath sim)))"
    by (simp add: getLandingLocation_def last_conv_nth)
  moreover have "last (launchPath sim) \<in> set (launchPath sim)"
    using \<open>launchPath sim \<noteq> []\<close> by simp
  ultimately show ?thesis using all by simp
qed

theorem calm_wind_lands_at_launch_witness:
  "simulateHour flatGeodesy inputsCalm 9 (forecastEx windCalm)
     = Inr (Some \<lparr>time = 9,
                   launchPath =
                     [\<lparr>pointAltitude = 0, location = launchSiteEx\<rparr>,
                      \<lparr>pointAltitude = 1000, location = launchSiteEx\<rparr>,
                      \<lparr>pointAltitude = 500, location = launchSiteEx\<rparr>,
                      \<lparr>pointAltitude = 0, location = launchSiteEx\<rparr>],
                   elevation = 100\<rparr>)
   \<and> getLandingLocation
         \<lparr>time = 9,
          launchPath =
            [\<lparr>pointAltitude = 0, location = launchSiteEx\<rparr>,
             \<lparr>pointAltitude = 1000, location = launchSiteEx\<rparr>,
             \<lparr>pointAltitude = 500, location = launchSiteEx\<rparr>,
             \<lparr>pointAltitude = 0, location = launchSiteEx\<rparr>],
          elevation = 100\<rparr>
       = Some launchSiteEx"
proof -
  have calm: "calm (windData (forecastEx windCalm))"
    by (simp add: calm_def forecastEx_def windCalm_def)
  have low: "altitude (windData (forecastEx windCalm) ! 0)
               \<le> fst (apogeeOfHour flatGeodesy inputsCalm (forecastEx windCalm))"
    unfolding apogeeOfHour_inputsCalm by (simp add: forecastEx_def windCalm_def)
  have upwind: "applyWeathercockAdjustment inputsCalm \<longrightarrow>
           loadedTable (weathercockData inputsCalm)
           \<and> (\<forall>l b. moveAlongBearing flatGeodesy l (feetToMeters flatGeodesy 0) b = l)"
    using flat_still(2) by (simp add: inputsCalm_def loadedTable_def tableEx_def)
  have site: "launchLocation inputsCalm = launchSiteEx"
    by (simp add: inputsCalm_def inputsDualEx_def inputsEx_def)
  from calm_wind_lands_at_launch
    [OF calm low flat_still(1) upwind simulateHour_inputsCalm]
  show ?thesis using simulateHour_inputsCalm site by simp
qed

subsection \<open>The order of the flight path\<close>

text \<open>
  Facts about lists: an element below the last of a descending list is below all of it, and
  a list that begins with a given prefix still does after an element is appended.
\<close>

lemma above_last:
  "sorted_wrt (>) (xs :: real list) \<Longrightarrow> xs \<noteq> [] \<Longrightarrow> y < last xs \<Longrightarrow> \<forall>x\<in>set xs. y < x"
proof (induction xs)
  case Nil
  then show ?case by simp
next
  case (Cons x xs)
  show ?case
  proof (cases "xs = []")
    case True
    with Cons.prems(3) show ?thesis by simp
  next
    case False
    from Cons.prems(1) have sorted: "sorted_wrt (>) xs" and top: "\<forall>z\<in>set xs. z < x"
      by simp_all
    from Cons.prems(3) False have low: "y < last xs" by simp
    from Cons.IH [OF sorted False low] have rest: "\<forall>z\<in>set xs. y < z" .
    from False have "last xs \<in> set xs" by (rule last_in_set)
    with top have "last xs < x" by blast
    with low have "y < x" by linarith
    with rest show ?thesis by simp
  qed
qed

lemma sorted_wrt_snoc_last:
  assumes "sorted_wrt (>) (xs :: real list)" and "xs \<noteq> []" and "y < last xs"
  shows "sorted_wrt (>) (xs @ [y])"
proof -
  have "\<forall>x\<in>set xs. y < x" using assms by (rule above_last)
  with assms(1) show ?thesis by (simp add: sorted_wrt_append)
qed

lemma take_prefix_length:
  assumes "take (length xs) ys = xs"
  shows "length xs \<le> length ys"
proof -
  have "length (take (length xs) ys) = min (length xs) (length ys)"
    by simp
  then have "length xs = min (length xs) (length ys)"
    by (simp only: assms)
  then show ?thesis by linarith
qed

lemma take_prefix_snoc:
  assumes "take (length xs) ys = xs"
  shows "take (length xs) (ys @ zs) = xs"
proof -
  have "length xs \<le> length ys" using assms by (rule take_prefix_length)
  then have "take (length xs) (ys @ zs) = take (length xs) ys"
    by simp
  then show ?thesis by (simp only: assms)
qed

text \<open>
  The loop over the bands keeps the descent list descending. Its invariant: the list begins
  with what it began with, its altitudes descend, its last step is above the floor of the
  band the loop visits next, and above the deployment altitude where that is below the
  ceiling of this band.
\<close>

lemma descendBands_descending:
  assumes asc: "ascending wd"
    and run: "descendBands wd mda main c (a, rc, acc) = Inr (a', rc', dl)"
    and c: "0 < c" "c < length wd"
    and acc: "acc \<noteq> []" "sorted_wrt (>) (map stepAltitude acc)"
    and floor: "altitude (wd ! (c - 1)) < stepAltitude (last acc)"
    and dep: "mda < altitude (wd ! c) \<longrightarrow> mda < stepAltitude (last acc)"
  shows "a' = a \<and> sorted_wrt (>) (map stepAltitude dl)
         \<and> stepAltitude (last dl) = altitude (wd ! 0)
         \<and> take (length acc) dl = acc \<and> length acc < length dl"
proof -
  define P where "P = (\<lambda>k (b::real) (r::jsnum) ys.
      b = a \<and> k \<le> c \<and> ys \<noteq> [] \<and> sorted_wrt (>) (map stepAltitude ys)
      \<and> take (length acc) ys = acc
      \<and> (k < c \<longrightarrow> stepAltitude (last ys) = altitude (wd ! k) \<and> length acc < length ys)
      \<and> (0 < k \<longrightarrow> altitude (wd ! (k - 1)) < stepAltitude (last ys)
            \<and> (mda < altitude (wd ! k) \<longrightarrow> mda < stepAltitude (last ys))))"
  have start: "P c a rc acc"
    using c acc floor dep by (simp add: P_def)
  have up: "Suc i < length wd \<Longrightarrow> altitude (wd ! i) < altitude (wd ! Suc i)" for i
    using ascending_nth [OF asc, of i "Suc i"] by simp
  have snoc: "P i b r (ys @ [rawStep wd q i])"
    if len: "Suc i < length wd" and b: "b = a" and ic: "Suc i \<le> c" and ne: "ys \<noteq> []"
      and sorted: "sorted_wrt (>) (map stepAltitude ys)"
      and prefix: "take (length acc) ys = acc"
      and above: "altitude (wd ! i) < stepAltitude (last ys)"
    for i b r ys q
  proof -
    have alt: "stepAltitude (rawStep wd q i) = altitude (wd ! i)"
      by (simp add: rawStep_def)
    have s: "sorted_wrt (>) (map stepAltitude (ys @ [rawStep wd q i]))"
      using sorted_wrt_snoc_last [of "map stepAltitude ys" "altitude (wd ! i)"] ne sorted above
      by (simp add: last_map alt)
    have le: "length acc \<le> length ys"
      using prefix by (rule take_prefix_length)
    have t: "take (length acc) (ys @ [rawStep wd q i]) = acc"
      using prefix by (rule take_prefix_snoc)
    have l: "length acc < length (ys @ [rawStep wd q i])"
      using le by simp
    have last: "stepAltitude (last (ys @ [rawStep wd q i])) = altitude (wd ! i)"
      using alt by simp
    have below: "0 < i \<longrightarrow> altitude (wd ! (i - 1)) < altitude (wd ! i)"
      using ascending_nth [OF asc, of "i - 1" i] len by simp
    have k: "i \<le> c" using ic by simp
    have nonempty: "ys @ [rawStep wd q i] \<noteq> []" by simp
    show ?thesis
      unfolding P_def last
      by (intro conjI impI b k s t l below [rule_format] nonempty refl) assumption
  qed
  have step: "P i b r' (ys @ [rawStep wd q i])"
    if len: "Suc i < length wd" and p: "P (Suc i) b r ys" for i b r r' ys q
  proof -
    from p have q: "b = a" "Suc i \<le> c" "ys \<noteq> []" "sorted_wrt (>) (map stepAltitude ys)"
      "take (length acc) ys = acc" "altitude (wd ! i) < stepAltitude (last ys)"
      unfolding P_def by simp_all
    show ?thesis by (rule snoc [OF len q])
  qed
  have final: "P 0 a' rc' dl"
  proof (rule descendBands_invariant [where P = P, OF run start])
    fix i b r ys
    assume "Suc i < length wd" and "altitude (wd ! Suc i) \<le> altitude (wd ! i)"
    with up [of i] have False by linarith
    then show "P i (altitude (wd ! i)) r ys" ..
  next
    fix i b r ys m
    assume "Suc i < length wd" and "P (Suc i) b r ys"
    then show "P i b main (ys @ [rawStep wd m i])" by (rule step)
  next
    fix i b r ys m
    assume len: "Suc i < length wd" and p: "P (Suc i) b r ys"
      and lo: "altitude (wd ! i) < mda" and hi: "mda < altitude (wd ! Suc i)"
    define deployment where "deployment = \<lparr>stepAltitude = mda, descentRate = m,
                        stepWindSpeed = getAverageWindSpeed
                          (getWindBandPercentage mda wd (int i)) wd (int i),
                        stepWindDirection = getAverageWindDirection
                          (getWindBandPercentage mda wd (int i)) wd (int i)\<rparr>"
    have alt: "stepAltitude deployment = mda" by (simp add: deployment_def)
    from p hi have q: "b = a" "Suc i \<le> c" "ys \<noteq> []" "sorted_wrt (>) (map stepAltitude ys)"
      "take (length acc) ys = acc" "mda < stepAltitude (last ys)"
      unfolding P_def by simp_all
    have s: "sorted_wrt (>) (map stepAltitude (ys @ [deployment]))"
      using sorted_wrt_snoc_last [of "map stepAltitude ys" mda] q(3,4,6)
      by (simp add: last_map alt)
    have le: "length acc \<le> length ys"
      using q(5) by (rule take_prefix_length)
    have t: "take (length acc) (ys @ [deployment]) = acc"
      using q(5) by (rule take_prefix_snoc)
    have above: "altitude (wd ! i) < stepAltitude (last (ys @ [deployment]))"
      using lo alt by simp
    have "P i b main ((ys @ [deployment]) @ [rawStep wd m i])"
      by (rule snoc [OF len q(1,2) _ s t above]) simp
    then show "P i b main (ys @ [\<lparr>stepAltitude = mda, descentRate = m,
                        stepWindSpeed = getAverageWindSpeed
                          (getWindBandPercentage mda wd (int i)) wd (int i),
                        stepWindDirection = getAverageWindDirection
                          (getWindBandPercentage mda wd (int i)) wd (int i)\<rparr>,
                      rawStep wd m i])"
      by (simp add: deployment_def)
  next
    fix i b r ys q
    assume "Suc i < length wd" and "P (Suc i) b r ys"
    then show "P i b r (ys @ [rawStep wd q i])" by (rule step)
  qed
  then have "a' = a" "sorted_wrt (>) (map stepAltitude dl)" "take (length acc) dl = acc"
    "0 < c \<longrightarrow> stepAltitude (last dl) = altitude (wd ! 0) \<and> length acc < length dl"
    unfolding P_def by simp_all
  with c(1) show ?thesis by simp
qed

text \<open>
  The integration loop appends one point for each step after the first, at the altitude of
  the step, and leaves the points before them as they are.
\<close>

lemma integrateDescent_path:
  "\<exists>pts. launchPath (snd (snd (integrateDescent g dl (loc, r, sim)))) = launchPath sim @ pts
       \<and> map pointAltitude pts = map stepAltitude (tl dl)
       \<and> (pts \<noteq> [] \<longrightarrow> location (last pts) = fst (integrateDescent g dl (loc, r, sim)))"
proof (induction dl arbitrary: loc r sim)
  case Nil
  then show ?case by simp
next
  case (Cons previous rest)
  show ?case
  proof (cases rest)
    case Nil
    then show ?thesis by simp
  next
    case (Cons current rest')
    define loc' where "loc' = fst (driftWithWind g loc
        ((stepWindSpeed current + stepWindSpeed previous) / 2)
        (stepAverageDirection (stepWindDirection previous) (stepWindDirection current))
        (Num r) (stepAltitude previous - stepAltitude current))"
    define sim' where "sim' = addLaunchPathPoint sim (stepAltitude current) loc'"
    have unfold: "integrateDescent g (previous # rest) (loc, r, sim)
        = integrateDescent g rest (loc', descentRate current, sim')"
      unfolding Cons by (simp add: Let_def loc'_def sim'_def)
    from Cons.IH [of loc' "descentRate current" sim'] obtain pts where
      pts: "launchPath (snd (snd (integrateDescent g rest (loc', descentRate current, sim'))))
              = launchPath sim' @ pts"
        "map pointAltitude pts = map stepAltitude (tl rest)"
        "pts \<noteq> [] \<longrightarrow> location (last pts)
              = fst (integrateDescent g rest (loc', descentRate current, sim'))"
      by blast
    let ?pt = "newLaunchPathPoint (stepAltitude current) loc'"
    have path: "launchPath sim' = launchPath sim @ [?pt]"
      by (simp add: sim'_def addLaunchPathPoint_def)
    have one: "launchPath (snd (snd (integrateDescent g (previous # rest) (loc, r, sim))))
        = launchPath sim @ (?pt # pts)"
      unfolding unfold pts(1) path by simp
    have two: "map pointAltitude (?pt # pts) = map stepAltitude (tl (previous # rest))"
      using pts(2) by (simp add: Cons newLaunchPathPoint_def)
    have three: "location (last (?pt # pts))
        = fst (integrateDescent g (previous # rest) (loc, r, sim))"
    proof (cases "pts = []")
      case True
      with pts(2) have "rest' = []" by (simp add: Cons)
      then have "fst (integrateDescent g rest (loc', descentRate current, sim')) = loc'"
        by (simp add: Cons)
      with True show ?thesis unfolding unfold by (simp add: newLaunchPathPoint_def)
    next
      case False
      with pts(3) show ?thesis unfolding unfold by simp
    qed
    from one two three show ?thesis by blast
  qed
qed

lemma flight_path_values:
  assumes asc: "ascending (windData fc)"
    and low: "altitude (windData fc ! 0) < fst (apogeeOfHour g inputs fc)"
    and dep: "mainDeployAltitude inputs < fst (apogeeOfHour g inputs fc)"
    and built: "buildDescentList (windData fc) (fst (apogeeOfHour g inputs fc))
       (usingDualDeployoment inputs) (mainDeployAltitude inputs)
       (Num (drogueDecentRate inputs)) (Num (mainDescentRate inputs)) = Inr (Some (a', dl))"
    and result: "simulateHour g inputs hour fc = Inr (Some sim)"
  shows "a' = fst (apogeeOfHour g inputs fc)
    \<and> launchPath sim ! 0 = \<lparr>pointAltitude = 0, location = launchLocation inputs\<rparr>
    \<and> launchPath sim ! 1 = \<lparr>pointAltitude = fst (apogeeOfHour g inputs fc),
                              location = snd (apogeeOfHour g inputs fc)\<rparr>
    \<and> map pointAltitude (launchPath sim) = 0 # map stepAltitude dl
    \<and> sorted_wrt (>) (map stepAltitude dl)
    \<and> pointAltitude (last (launchPath sim)) = altitude (windData fc ! 0)
    \<and> (\<exists>blank. getLandingLocation sim
          = Some (fst (integrateDescent g dl
              (snd (apogeeOfHour g inputs fc), descentRate (dl ! 0), blank))))"
proof -
  let ?wd = "windData fc" and ?a = "fst (apogeeOfHour g inputs fc)"
  let ?loc = "snd (apogeeOfHour g inputs fc)"
  let ?w = "findWindIndex ?wd ?a"
  let ?rate = "if usingDualDeployoment inputs then Num (drogueDecentRate inputs)
               else Num (mainDescentRate inputs)"
  from built obtain apogeeStep rc' where ne: "?wd \<noteq> []" and inrange: "?w \<noteq> length ?wd"
    and ap: "newDescentData ?a ?rate
           (getAverageWindSpeed (getWindBandPercentage ?a ?wd (int (?w - 1))) ?wd (int (?w - 1)))
           (getAverageWindDirection (getWindBandPercentage ?a ?wd (int (?w - 1))) ?wd
              (int (?w - 1))) = Inr apogeeStep"
    and run: "descendBands ?wd (mainDeployAltitude inputs) (Num (mainDescentRate inputs)) ?w
           (?a, ?rate, [apogeeStep]) = Inr (a', rc', dl)"
    by (rule buildDescentList_SomeE)
  from findWindIndex_found [OF ne inrange]
  have w: "1 \<le> ?w" "?w < length ?wd"
    "\<forall>k. 1 \<le> k \<and> k < ?w \<longrightarrow> altitude (?wd ! k) < ?a" by auto
  have top: "stepAltitude apogeeStep = ?a"
    using ap by (auto simp add: newDescentData_def split: jsnum.splits if_splits)
  have floor: "altitude (?wd ! (?w - 1)) < stepAltitude (last [apogeeStep])"
  proof (cases "?w = 1")
    case True
    then show ?thesis using low top by simp
  next
    case False
    with w(1) have "1 \<le> ?w - 1 \<and> ?w - 1 < ?w" by linarith
    with w(3) have "altitude (?wd ! (?w - 1)) < ?a" by blast
    then show ?thesis using top by simp
  qed
  have below: "mainDeployAltitude inputs < altitude (?wd ! ?w)
      \<longrightarrow> mainDeployAltitude inputs < stepAltitude (last [apogeeStep])"
    using dep top by simp
  have pos: "0 < ?w" using w(1) by simp
  have single: "[apogeeStep] \<noteq> []" "sorted_wrt (>) (map stepAltitude [apogeeStep])"
    by simp_all
  from descendBands_descending [OF asc run pos w(2) single floor below]
  have d: "a' = ?a" "sorted_wrt (>) (map stepAltitude dl)"
    "stepAltitude (last dl) = altitude (?wd ! 0)" "take (length [apogeeStep]) dl = [apogeeStep]"
    "length [apogeeStep] < length dl"
    by simp_all
  from d(4,5) obtain rest where dl: "dl = apogeeStep # rest" and rest: "rest \<noteq> []"
    by (cases dl) auto
  from result obtain a'' dl'' where
    built'': "buildDescentList ?wd ?a
       (usingDualDeployoment inputs) (mainDeployAltitude inputs)
       (Num (drogueDecentRate inputs)) (Num (mainDescentRate inputs)) = Inr (Some (a'', dl''))"
    and sim'': "sim = snd (snd (integrateDescent g dl''
           (?loc, descentRate (dl'' ! 0),
            addLaunchPathPoint
              (addLaunchPathPoint
                 (newLaunchSimulationData
                    (case siteElevation inputs of
                       None \<Rightarrow> groundElevation fc
                     | Some e \<Rightarrow> if e < 0 then groundElevation fc else e) hour)
                 0 (launchLocation inputs))
              a'' ?loc)))"
    by (rule simulateHour_SomeE)
  from built built'' have same: "a'' = a'" "dl'' = dl" by simp_all
  define start where "start = addLaunchPathPoint
              (addLaunchPathPoint
                 (newLaunchSimulationData
                    (case siteElevation inputs of
                       None \<Rightarrow> groundElevation fc
                     | Some e \<Rightarrow> if e < 0 then groundElevation fc else e) hour)
                 0 (launchLocation inputs))
              a' ?loc"
  have sim: "sim = snd (snd (integrateDescent g dl (?loc, descentRate (dl ! 0), start)))"
    using sim'' unfolding same start_def .
  have head: "launchPath start = [\<lparr>pointAltitude = 0, location = launchLocation inputs\<rparr>,
                                  \<lparr>pointAltitude = ?a, location = ?loc\<rparr>]"
    by (simp add: start_def addLaunchPathPoint_def newLaunchSimulationData_def
          newLaunchPathPoint_def d(1))
  from integrateDescent_path [of g dl ?loc "descentRate (dl ! 0)" start] obtain pts where
    pts: "launchPath sim = launchPath start @ pts"
      "map pointAltitude pts = map stepAltitude (tl dl)"
      "pts \<noteq> [] \<longrightarrow> location (last pts)
         = fst (integrateDescent g dl (?loc, descentRate (dl ! 0), start))"
    unfolding sim by blast
  have nonempty: "pts \<noteq> []" using pts(2) dl rest by auto
  have p0: "launchPath sim ! 0 = \<lparr>pointAltitude = 0, location = launchLocation inputs\<rparr>"
    unfolding pts(1) head by simp
  have p1: "launchPath sim ! 1 = \<lparr>pointAltitude = ?a, location = ?loc\<rparr>"
    unfolding pts(1) head by simp
  have alts: "map pointAltitude (launchPath sim) = 0 # map stepAltitude dl"
    unfolding pts(1) head using pts(2) top by (simp add: dl)
  have lastpt: "last (launchPath sim) = last pts"
    unfolding pts(1) using nonempty by simp
  have "pointAltitude (last pts) = last (map pointAltitude pts)"
    using nonempty by (simp add: last_map)
  also have "\<dots> = last (map stepAltitude rest)" using pts(2) by (simp add: dl)
  also have "\<dots> = stepAltitude (last dl)" using rest by (simp add: dl last_map)
  finally have ground: "pointAltitude (last (launchPath sim)) = altitude (?wd ! 0)"
    using d(3) lastpt by simp
  have "launchPath sim \<noteq> []" unfolding pts(1) head by simp
  then have "getLandingLocation sim = Some (location (last (launchPath sim)))"
    by (simp add: getLandingLocation_def last_conv_nth)
  with lastpt pts(3) nonempty
  have landing: "getLandingLocation sim
      = Some (fst (integrateDescent g dl (?loc, descentRate (dl ! 0), start)))"
    by simp
  from d(1) p0 p1 alts d(2) ground landing show ?thesis by blast
qed

text \<open>
  The path over the store. Appending a point allocates one object and writes no other; the
  drift writes only \<^verbatim>\<open>rocketLocation\<close>, which no point holds. So the coordinates of a point, once
  appended, stay what they were, and the path read from the final store is the path of
  \<open>integrateDescent\<close>.
\<close>

lemma addLaunchPathPointRef_copy:
  assumes "ownCopies bound st path" and "bound \<le> nextFree st" and "loc < nextFree st"
    and "addLaunchPathPointRef (st, path) alt loc = (st', path')"
  shows "ownCopies bound st' path'
         \<and> storedPath st' path' = storedPath st path @ [newLaunchPathPoint alt (cells st loc)]
         \<and> nextFree st \<le> nextFree st'
         \<and> (\<forall>old < nextFree st. cells st' old = cells st old)"
proof -
  let ?n = "nextFree st"
  from assms(4) have st': "st' = st\<lparr>cells := (cells st)(?n :=
        \<lparr>latitude = latitude (cells st loc), longitude = longitude (cells st loc)\<rparr>),
         nextFree := Suc ?n\<rparr>"
    and path': "path' = path @ [(alt, ?n)]"
    by (simp_all add: addLaunchPathPointRef_def newGeoLocation_def Let_def)
  from assms(1) have old: "\<forall>r\<in>set (map snd path). bound \<le> r \<and> r < ?n"
    and dist: "distinct (map snd path)"
    by (simp_all add: ownCopies_def)
  have fresh: "?n \<notin> set (map snd path)" using old by auto
  have own: "ownCopies bound st' path'"
    unfolding ownCopies_def path' st' using old dist fresh assms(2) by auto
  have keep: "storedPath st' path = storedPath st path"
    unfolding storedPath_def st' using fresh by (auto simp add: rev_image_eqI)
  have stored: "storedPath st' path' = storedPath st path @ [newLaunchPathPoint alt (cells st loc)]"
    unfolding path' using keep by (simp add: storedPath_def st' newLaunchPathPoint_def)
  show ?thesis using own stored by (simp add: st')
qed

lemma integrateDescentRef_copies:
  assumes "ownCopies bound st path" and "bound \<le> nextFree st" and "rocket < bound"
    and "launchPath sim = storedPath st path"
    and "integrateDescentRef g rocket dl (st, r, path) = (st', r', path')"
  shows "ownCopies bound st' path'
         \<and> storedPath st' path'
             = launchPath (snd (snd (integrateDescent g dl (cells st rocket, r, sim))))"
  using assms(1,2,4,5)
proof (induction dl arbitrary: st r path sim)
  case Nil
  then show ?case by simp
next
  case (Cons previous rest)
  show ?case
  proof (cases rest)
    case Nil
    with Cons.prems show ?thesis by simp
  next
    case (Cons current rest')
    define speed where "speed = (stepWindSpeed current + stepWindSpeed previous) / 2"
    define dir where "dir = stepAverageDirection (stepWindDirection previous)
                              (stepWindDirection current)"
    define fall where "fall = stepAltitude previous - stepAltitude current"
    define loc' where "loc' = fst (driftWithWind g (cells st rocket) speed dir (Num r) fall)"
    define st1 where "st1 = driftWithWindRef g st rocket speed dir (Num r) fall"
    obtain st2 path2 where add: "addLaunchPathPointRef (st1, path) (stepAltitude current) rocket
        = (st2, path2)"
      by (cases "addLaunchPathPointRef (st1, path) (stepAltitude current) rocket") auto
    define sim' where "sim' = addLaunchPathPoint sim (stepAltitude current) loc'"
    have next1: "nextFree st1 = nextFree st" and cell1: "cells st1 rocket = loc'"
      by (simp_all add: st1_def driftWithWindRef_def loc'_def)
    have own1: "ownCopies bound st1 path"
      using Cons.prems(1) by (simp add: ownCopies_def next1)
    have apart: "\<forall>loc\<in>set (map snd path). loc \<noteq> rocket"
      using Cons.prems(1) assms(3) by (auto simp add: ownCopies_def)
    have stored1: "storedPath st1 path = storedPath st path"
      unfolding storedPath_def st1_def driftWithWindRef_def using apart by auto
    have b1: "bound \<le> nextFree st1" using Cons.prems(2) next1 by simp
    have r1: "rocket < nextFree st1" using assms(3) b1 by simp
    from addLaunchPathPointRef_copy [OF own1 b1 r1 add]
    have own2: "ownCopies bound st2 path2"
      and stored2: "storedPath st2 path2
          = storedPath st1 path @ [newLaunchPathPoint (stepAltitude current) (cells st1 rocket)]"
      and next2: "nextFree st1 \<le> nextFree st2"
      and frame: "\<forall>old < nextFree st1. cells st2 old = cells st1 old"
      by simp_all
    have cell2: "cells st2 rocket = loc'" using frame r1 cell1 by simp
    have b2: "bound \<le> nextFree st2" using b1 next2 by simp
    have path': "launchPath sim' = storedPath st2 path2"
      unfolding sim'_def stored2 stored1 cell1
      using Cons.prems(3) by (simp add: addLaunchPathPoint_def)
    have add': "addLaunchPathPointRef
          (driftWithWindRef g st rocket
             ((stepWindSpeed current + stepWindSpeed previous) / 2)
             (stepAverageDirection (stepWindDirection previous) (stepWindDirection current))
             (Num r) (stepAltitude previous - stepAltitude current), path)
          (stepAltitude current) rocket = (st2, path2)"
      using add by (simp add: st1_def speed_def dir_def fall_def)
    have "integrateDescentRef g rocket (previous # rest) (st, r, path)
        = integrateDescentRef g rocket rest (st2, descentRate current, path2)"
      unfolding Cons by (simp add: Let_def add')
    with Cons.prems(4)
    have run: "integrateDescentRef g rocket rest (st2, descentRate current, path2)
        = (st', r', path')"
      by simp
    have plain: "integrateDescent g (previous # rest) (cells st rocket, r, sim)
        = integrateDescent g rest (loc', descentRate current, sim')"
      unfolding Cons
      by (simp add: Let_def speed_def dir_def fall_def loc'_def sim'_def)
    from Cons.IH [OF own2 b2 path' run] show ?thesis
      unfolding plain cell2 .
  qed
qed

lemma flightPathRef_copies:
  assumes "launchRef < nextFree st" and "rocket < nextFree st"
    and "launchPath blank = []"
    and "flightPathRef g st launchRef rocket a dl = (st', path)"
  shows "ownCopies (nextFree st) st' path
         \<and> storedPath st' path
             = launchPath (snd (snd (integrateDescent g dl
                 (cells st rocket, descentRate (dl ! 0),
                  addLaunchPathPoint (addLaunchPathPoint blank 0 (cells st launchRef))
                    a (cells st rocket)))))"
proof -
  let ?b = "nextFree st"
  obtain st1 path1 where add1: "addLaunchPathPointRef (st, []) 0 launchRef = (st1, path1)"
    by (cases "addLaunchPathPointRef (st, []) 0 launchRef") auto
  obtain st2 path2 where add2: "addLaunchPathPointRef (st1, path1) a rocket = (st2, path2)"
    by (cases "addLaunchPathPointRef (st1, path1) a rocket") auto
  obtain st3 r3 path3 where run: "integrateDescentRef g rocket dl
      (st2, descentRate (dl ! 0), path2) = (st3, r3, path3)"
    by (cases "integrateDescentRef g rocket dl (st2, descentRate (dl ! 0), path2)") auto
  have result: "st' = st3" "path = path3"
    using assms(4) by (simp_all add: flightPathRef_def Let_def add1 add2 run)
  have own0: "ownCopies ?b st []" by (simp add: ownCopies_def)
  from addLaunchPathPointRef_copy [OF own0 _ assms(1) add1]
  have own1: "ownCopies ?b st1 path1"
    and stored1: "storedPath st1 path1 = [newLaunchPathPoint 0 (cells st launchRef)]"
    and next1: "?b \<le> nextFree st1"
    and frame1: "\<forall>old < ?b. cells st1 old = cells st old"
    by (simp_all add: storedPath_def)
  have r1: "rocket < nextFree st1" using assms(2) next1 by simp
  from addLaunchPathPointRef_copy [OF own1 next1 r1 add2]
  have own2: "ownCopies ?b st2 path2"
    and stored2: "storedPath st2 path2
        = storedPath st1 path1 @ [newLaunchPathPoint a (cells st1 rocket)]"
    and next2: "nextFree st1 \<le> nextFree st2"
    and frame2: "\<forall>old < nextFree st1. cells st2 old = cells st1 old"
    by simp_all
  have cell: "cells st1 rocket = cells st rocket" "cells st2 rocket = cells st rocket"
    using frame1 frame2 assms(2) r1 by simp_all
  have b2: "?b \<le> nextFree st2" using next1 next2 by simp
  define start where "start = addLaunchPathPoint (addLaunchPathPoint blank 0
      (cells st launchRef)) a (cells st rocket)"
  have path: "launchPath start = storedPath st2 path2"
    unfolding stored2 stored1 cell by (simp add: start_def addLaunchPathPoint_def assms(3))
  from integrateDescentRef_copies [OF own2 b2 assms(2) path run]
  show ?thesis unfolding result cell start_def .
qed


text \<open>The path of an hour that gives a result, from its descent list.\<close>

lemma simulateHour_path:
  assumes built: "buildDescentList (windData fc) (fst (apogeeOfHour g inputs fc))
       (usingDualDeployoment inputs) (mainDeployAltitude inputs)
       (Num (drogueDecentRate inputs)) (Num (mainDescentRate inputs)) = Inr (Some (a', dl))"
    and result: "simulateHour g inputs hour fc = Inr (Some sim)"
  shows "\<exists>blank. launchPath blank = []
    \<and> sim = snd (snd (integrateDescent g dl
           (snd (apogeeOfHour g inputs fc), descentRate (dl ! 0),
            addLaunchPathPoint (addLaunchPathPoint blank 0 (launchLocation inputs))
              a' (snd (apogeeOfHour g inputs fc)))))"
proof -
  define blank where "blank = newLaunchSimulationData
                    (case siteElevation inputs of
                       None \<Rightarrow> groundElevation fc
                     | Some e \<Rightarrow> if e < 0 then groundElevation fc else e) hour"
  from result obtain a'' dl'' where
    built'': "buildDescentList (windData fc) (fst (apogeeOfHour g inputs fc))
       (usingDualDeployoment inputs) (mainDeployAltitude inputs)
       (Num (drogueDecentRate inputs)) (Num (mainDescentRate inputs)) = Inr (Some (a'', dl''))"
    and sim'': "sim = snd (snd (integrateDescent g dl''
           (snd (apogeeOfHour g inputs fc), descentRate (dl'' ! 0),
            addLaunchPathPoint
              (addLaunchPathPoint
                 (newLaunchSimulationData
                    (case siteElevation inputs of
                       None \<Rightarrow> groundElevation fc
                     | Some e \<Rightarrow> if e < 0 then groundElevation fc else e) hour)
                 0 (launchLocation inputs))
              a'' (snd (apogeeOfHour g inputs fc)))))"
    by (rule simulateHour_SomeE)
  from built built'' have same: "a'' = a'" "dl'' = dl" by simp_all
  have "launchPath blank = []" by (simp add: blank_def newLaunchSimulationData_def)
  moreover have "sim = snd (snd (integrateDescent g dl
           (snd (apogeeOfHour g inputs fc), descentRate (dl ! 0),
            addLaunchPathPoint (addLaunchPathPoint blank 0 (launchLocation inputs))
              a' (snd (apogeeOfHour g inputs fc)))))"
    using sim'' unfolding same blank_def .
  ultimately show ?thesis by blast
qed

text \<open>
  A flight to 500 feet in the profile whose lowest sample is at 100 feet, and the addresses
  of a dual-deployment path from 1000 feet in a store with two objects.
\<close>

lemma buildDescentList_raisedList:
  "buildDescentList windRaised 500 False (- 1) (Num 20) (Num 20) = Inr (Some (500, raisedList))"
  by (simp add: buildDescentList_def windRaised_def findWindIndex_def getWindBandPercentage_def
        getAverageWindSpeed_def getAverageWindDirection_def newDescentData_def Let_def
        raisedList_def)

lemma integrateDescent_raisedList: "integrateDescent flatGeodesy raisedList (launchSiteEx, 20, sim)
   = (launchSiteEx, 20, addLaunchPathPoint sim 100 launchSiteEx)"
  by (simp add: raisedList_def Let_def driftWithWind_flat_calm)

lemma simulateHour_raisedList:
  "simulateHour flatGeodesy (inputsEx 500) h (forecastEx windRaised)
   = Inr (Some \<lparr>time = h,
        launchPath =
          [\<lparr>pointAltitude = 0, location = launchSiteEx\<rparr>,
           \<lparr>pointAltitude = 500, location = launchSiteEx\<rparr>,
           \<lparr>pointAltitude = 100, location = launchSiteEx\<rparr>],
        elevation = 100\<rparr>)"
proof -
  have len: "length raisedList = 2" and rate: "descentRate (raisedList ! 0) = 20"
    by (simp_all add: raisedList_def)
  show ?thesis
    unfolding simulateHour_def inputsEx_fields forecastEx_fields
    by (simp add: Let_def buildDescentList_raisedList len rate integrateDescent_raisedList)
       (simp add: addLaunchPathPoint_def newLaunchSimulationData_def
          newLaunchPathPoint_def launchSiteEx_def)
qed

lemma flightPathRef_calmList:
  "snd (flightPathRef flatGeodesy storeEx 0 1 1000 calmList) = [(0, 2), (1000, 3), (500, 4), (0, 5)]"
  by (simp add: flightPathRef_def storeEx_def calmList_def addLaunchPathPointRef_def newGeoLocation_def
        driftWithWindRef_def Let_def)

text \<open>
  C9, as the claim states it: the last point of the path is at altitude 0. In the profile
  whose lowest sample is at 100 feet, a flight to 500 feet ends at 100 feet: the path has a
  point for each descent step, and the last step is at the lowest sample.
\<close>

theorem flight_path_ground_counterexample:
  "ascending windRaised
   \<and> simulateHour flatGeodesy (inputsEx 500) 9 (forecastEx windRaised)
       = Inr (Some \<lparr>time = 9,
            launchPath =
              [\<lparr>pointAltitude = 0, location = launchSiteEx\<rparr>,
               \<lparr>pointAltitude = 500, location = launchSiteEx\<rparr>,
               \<lparr>pointAltitude = 100, location = launchSiteEx\<rparr>],
            elevation = 100\<rparr>)
   \<and> pointAltitude
         (last [\<lparr>pointAltitude = 0, location = launchSiteEx\<rparr>,
                \<lparr>pointAltitude = 500, location = launchSiteEx\<rparr>,
                \<lparr>pointAltitude = 100, location = launchSiteEx\<rparr>]) = 100"
  using simulateHour_raisedList by (simp add: ascending_def windRaised_def)

text \<open>
  C9, amended. Let the samples ascend, with the lowest of them below the apogee the descent
  starts from, and let the deployment altitude be below that apogee. Then in an hour that
  gives a result, with \<open>dl\<close> its descent list: the first point of the path is at altitude 0
  at the launch location; the second is at the apogee altitude and the apogee location;
  after the first point the path has one point for each step of the descent list, at the
  altitude of the step; these altitudes descend, each below the one before; the last point
  is at the altitude of the lowest sample, and so at 0 when that sample is on the ground; and
  the landing location is the rocket's location after the last step. Read from the store at
  the end, the points hold the coordinates they were given when they were appended, in
  objects of their own: no two points share a location object, and none shares one with
  \<^verbatim>\<open>launchLocation\<close>, \<^verbatim>\<open>rocketLocation\<close> or any object that existed before.
\<close>

theorem flight_path_order:
  assumes asc: "ascending (windData fc)"
    and low: "altitude (windData fc ! 0) < fst (apogeeOfHour g inputs fc)"
    and dep: "mainDeployAltitude inputs < fst (apogeeOfHour g inputs fc)"
    and built: "buildDescentList (windData fc) (fst (apogeeOfHour g inputs fc))
       (usingDualDeployoment inputs) (mainDeployAltitude inputs)
       (Num (drogueDecentRate inputs)) (Num (mainDescentRate inputs)) = Inr (Some (a', dl))"
    and result: "simulateHour g inputs hour fc = Inr (Some sim)"
  shows "launchPath sim ! 0 = \<lparr>pointAltitude = 0, location = launchLocation inputs\<rparr>
    \<and> launchPath sim ! 1 = \<lparr>pointAltitude = fst (apogeeOfHour g inputs fc),
                              location = snd (apogeeOfHour g inputs fc)\<rparr>
    \<and> map pointAltitude (launchPath sim) = 0 # map stepAltitude dl
    \<and> sorted_wrt (>) (map stepAltitude dl)
    \<and> pointAltitude (last (launchPath sim)) = altitude (windData fc ! 0)
    \<and> (\<exists>blank. getLandingLocation sim
          = Some (fst (integrateDescent g dl
              (snd (apogeeOfHour g inputs fc), descentRate (dl ! 0), blank))))
    \<and> (\<forall>st launchRef rocketRef st' path.
          launchRef < nextFree st \<and> rocketRef < nextFree st
          \<and> cells st launchRef = launchLocation inputs
          \<and> cells st rocketRef = snd (apogeeOfHour g inputs fc)
          \<and> flightPathRef g st launchRef rocketRef (fst (apogeeOfHour g inputs fc)) dl
              = (st', path)
          \<longrightarrow> storedPath st' path = launchPath sim \<and> ownCopies (nextFree st) st' path)"
proof -
  note shape = flight_path_values [OF asc low dep built result]
  from simulateHour_path [OF built result] obtain blank where
    blank: "launchPath blank = []"
    and sim: "sim = snd (snd (integrateDescent g dl
           (snd (apogeeOfHour g inputs fc), descentRate (dl ! 0),
            addLaunchPathPoint (addLaunchPathPoint blank 0 (launchLocation inputs))
              a' (snd (apogeeOfHour g inputs fc)))))"
    by blast
  from shape have a': "a' = fst (apogeeOfHour g inputs fc)" by blast
  have copies: "storedPath st' path = launchPath sim \<and> ownCopies (nextFree st) st' path"
    if "launchRef < nextFree st" and "rocketRef < nextFree st"
      and "cells st launchRef = launchLocation inputs"
      and "cells st rocketRef = snd (apogeeOfHour g inputs fc)"
      and "flightPathRef g st launchRef rocketRef (fst (apogeeOfHour g inputs fc)) dl
              = (st', path)"
    for st launchRef rocketRef st' path
    using flightPathRef_copies [OF that(1,2) blank that(5)]
    unfolding that(3,4) sim a' by simp
  from shape copies show ?thesis by blast
qed

theorem flight_path_order_witness:
  "map pointAltitude
     [\<lparr>pointAltitude = 0, location = launchSiteEx\<rparr>,
      \<lparr>pointAltitude = 1000, location = launchSiteEx\<rparr>,
      \<lparr>pointAltitude = 500, location = launchSiteEx\<rparr>,
      \<lparr>pointAltitude = 0, location = launchSiteEx\<rparr>] = 0 # map stepAltitude calmList
   \<and> sorted_wrt (>) (map stepAltitude calmList)
   \<and> storedPath (fst (flightPathRef flatGeodesy storeEx 0 1 1000 calmList))
         (snd (flightPathRef flatGeodesy storeEx 0 1 1000 calmList))
       = [\<lparr>pointAltitude = 0, location = launchSiteEx\<rparr>,
          \<lparr>pointAltitude = 1000, location = launchSiteEx\<rparr>,
          \<lparr>pointAltitude = 500, location = launchSiteEx\<rparr>,
          \<lparr>pointAltitude = 0, location = launchSiteEx\<rparr>]
   \<and> ownCopies 2 (fst (flightPathRef flatGeodesy storeEx 0 1 1000 calmList))
         (snd (flightPathRef flatGeodesy storeEx 0 1 1000 calmList))
   \<and> snd (flightPathRef flatGeodesy storeEx 0 1 1000 calmList)
       = [(0, 2), (1000, 3), (500, 4), (0, 5)]"
proof -
  let ?sim = "\<lparr>time = 9,
                launchPath =
                  [\<lparr>pointAltitude = 0, location = launchSiteEx\<rparr>,
                   \<lparr>pointAltitude = 1000, location = launchSiteEx\<rparr>,
                   \<lparr>pointAltitude = 500, location = launchSiteEx\<rparr>,
                   \<lparr>pointAltitude = 0, location = launchSiteEx\<rparr>],
                elevation = 100\<rparr>"
  have start: "apogeeOfHour flatGeodesy inputsCalm (forecastEx windCalm) = (1000, launchSiteEx)"
    by (rule apogeeOfHour_inputsCalm)
  have asc: "ascending (windData (forecastEx windCalm))"
    by (simp add: ascending_def forecastEx_def windCalm_def)
  have low: "altitude (windData (forecastEx windCalm) ! 0)
               < fst (apogeeOfHour flatGeodesy inputsCalm (forecastEx windCalm))"
    unfolding start by (simp add: forecastEx_def windCalm_def)
  have dep: "mainDeployAltitude inputsCalm
               < fst (apogeeOfHour flatGeodesy inputsCalm (forecastEx windCalm))"
    unfolding start by (simp add: inputsCalm_def inputsDualEx_def inputsEx_def)
  have built: "buildDescentList (windData (forecastEx windCalm))
       (fst (apogeeOfHour flatGeodesy inputsCalm (forecastEx windCalm)))
       (usingDualDeployoment inputsCalm) (mainDeployAltitude inputsCalm)
       (Num (drogueDecentRate inputsCalm)) (Num (mainDescentRate inputsCalm))
       = Inr (Some (1000, calmList))"
    unfolding start using buildDescentList_windCalm
    by (simp add: forecastEx_def inputsCalm_def inputsDualEx_def inputsEx_def)
  note fact = flight_path_order [OF asc low dep built simulateHour_inputsCalm]
  have site: "launchLocation inputsCalm = launchSiteEx"
    by (simp add: inputsCalm_def inputsDualEx_def inputsEx_def)
  obtain st' path where run: "flightPathRef flatGeodesy storeEx 0 1 1000 calmList = (st', path)"
    by (cases "flightPathRef flatGeodesy storeEx 0 1 1000 calmList") auto
  have refs: "(0::nat) < nextFree storeEx \<and> (1::nat) < nextFree storeEx
      \<and> cells storeEx 0 = launchLocation inputsCalm
      \<and> cells storeEx 1 = snd (apogeeOfHour flatGeodesy inputsCalm (forecastEx windCalm))
      \<and> flightPathRef flatGeodesy storeEx 0 1
            (fst (apogeeOfHour flatGeodesy inputsCalm (forecastEx windCalm))) calmList
          = (st', path)"
    unfolding start using run by (simp add: storeEx_def site)
  from fact refs have copies: "storedPath st' path = launchPath ?sim
      \<and> ownCopies (nextFree storeEx) st' path"
    by blast
  from fact have alts: "map pointAltitude (launchPath ?sim) = 0 # map stepAltitude calmList"
    and desc: "sorted_wrt (>) (map stepAltitude calmList)"
    by blast+
  from copies alts desc flightPathRef_calmList show ?thesis
    unfolding run by (simp add: storeEx_def)
qed

subsection \<open>A descent rate of zero\<close>

text \<open>
  \<^verbatim>\<open>driftWithWind\<close> divides the distance of a step by the rate of the step, unless the rate
  is zero or \<^verbatim>\<open>NaN\<close>: then it returns at once, \<^verbatim>\<open>undefined\<close> and with the location as it
  was. What the checks of \<^verbatim>\<open>calculateLandingPlots\<close> let through has both rates above zero,
  and so has every step of every descent list built from it.
\<close>

lemma driftWithWind_zero: "driftWithWind g loc s d (Num 0) fall = (loc, None)"
  by (simp add: driftWithWind_def)










text \<open>
  \<^verbatim>\<open>driftSimulation\<close>, which nothing in the sources calls, has the same loops behind none of
  these checks: \<^verbatim>\<open>rocket.js\<close> stores the rates as they come. A rocket set to a single
  deployment at 0 ft/s, flown from 1500 feet through the samples at 0, 500 and 1500 feet,
  gets a result there, with every step left out of the drift and the path over the launch
  site.
\<close>

lemma getLaunchPath_rocketStalled:
  "getLaunchPath flatGeodesy rocketStalled siteEx (forecastEx windEx)
     = [newLaunchPathPoint 0 launchSiteEx, newLaunchPathPoint 1500 launchSiteEx]"
  by (simp add: getLaunchPath_def rocketStalled_def siteEx_def)

lemma buildDescentList_stalled:
  "buildDescentList windEx 1500 False (- 1) (Num 75) (Num 0) = Inr (Some (1500, stalledList))"
  by (simp add: buildDescentList_def windEx_def findWindIndex_def getWindBandPercentage_def
        getAverageWindSpeed_def getAverageWindDirection_def newDescentData_def Let_def
        stalledList_def)

lemma buildDescentList_rocketStalled:
  "buildDescentList (windData (forecastEx windEx)) 1500 (usingDualDeployment rocketStalled)
     (mainDeployAlt rocketStalled) (descentRateDrogue rocketStalled)
     (descentRateMain rocketStalled) = Inr (Some (1500, stalledList))"
  using buildDescentList_stalled
  by (simp add: forecastEx_def rocketStalled_def usingDualDeployment_def)

lemma integrateDescent_stalledList:
  "integrateDescent flatGeodesy stalledList (launchSiteEx, 0, sim)
     = (launchSiteEx, 0,
        addLaunchPathPoint (addLaunchPathPoint sim 500 launchSiteEx) 0 launchSiteEx)"
  by (simp add: stalledList_def driftWithWind_zero Let_def)

lemma newLaunchPathPoint_launchSiteEx:
  "pointAltitude (newLaunchPathPoint a launchSiteEx) = a"
  "location (newLaunchPathPoint a launchSiteEx) = launchSiteEx"
  by (simp_all add: newLaunchPathPoint_def launchSiteEx_def)

lemma driftSimulation_zero_rate:
  "descentRateMain rocketStalled = Num 0
   \<and> driftSimulation flatGeodesy siteEx 9 rocketStalled (forecastEx windEx)
       = Inr (Some \<lparr>time = 9,
                     launchPath =
                       [\<lparr>pointAltitude = 0, location = launchSiteEx\<rparr>,
                        \<lparr>pointAltitude = 1500, location = launchSiteEx\<rparr>,
                        \<lparr>pointAltitude = 500, location = launchSiteEx\<rparr>,
                        \<lparr>pointAltitude = 0, location = launchSiteEx\<rparr>],
                     elevation = 100\<rparr>)"
proof -
  have len: "length stalledList = 3" and rate: "descentRate (stalledList ! 0) = 0"
    by (simp_all add: stalledList_def)
  have "driftSimulation flatGeodesy siteEx 9 rocketStalled (forecastEx windEx)
       = Inr (Some \<lparr>time = 9,
                     launchPath =
                       [\<lparr>pointAltitude = 0, location = launchSiteEx\<rparr>,
                        \<lparr>pointAltitude = 1500, location = launchSiteEx\<rparr>,
                        \<lparr>pointAltitude = 500, location = launchSiteEx\<rparr>,
                        \<lparr>pointAltitude = 0, location = launchSiteEx\<rparr>],
                     elevation = 100\<rparr>)"
    unfolding driftSimulation_def getLaunchPath_rocketStalled
    by (simp add: Let_def newLaunchPathPoint_launchSiteEx buildDescentList_rocketStalled len rate
          integrateDescent_stalledList)
       (simp add: addLaunchPathPoint_def newLaunchSimulationData_def siteEx_def
          newLaunchPathPoint_def launchSiteEx_def)
  then show ?thesis by (simp add: rocketStalled_def)
qed

subsection \<open>The hours after an hour without a result\<close>

text \<open>
  The loop over the hours adds to its list what each hour gives, in the order of the hours,
  and returns the list, unless an hour throws.
\<close>

lemma plotHours_prefix:
  "plotHours g inputs offset fs acc = Inr sims \<Longrightarrow> \<exists>more. sims = acc @ more"
proof (induction fs arbitrary: offset acc)
  case Nil
  then show ?case by simp
next
  case (Cons f fs)
  show ?case
  proof (cases f)
    case None
    with Cons.prems have "plotHours g inputs (offset + 1) fs acc = Inr sims" by simp
    then show ?thesis by (rule Cons.IH)
  next
    case (Some fc)
    show ?thesis
    proof (cases "simulateHour g inputs (startHour inputs + offset) fc")
      case (Inl e)
      with Some Cons.prems show ?thesis by simp
    next
      case (Inr r)
      show ?thesis
      proof (cases r)
        case None
        with Some Inr Cons.prems have "plotHours g inputs (offset + 1) fs acc = Inr sims" by simp
        then show ?thesis by (rule Cons.IH)
      next
        case (Some sim)
        with \<open>f = Some fc\<close> Inr Cons.prems
        have "plotHours g inputs (offset + 1) fs (acc @ [sim]) = Inr sims" by simp
        then have "\<exists>more. sims = (acc @ [sim]) @ more" by (rule Cons.IH)
        then show ?thesis by auto
      qed
    qed
  qed
qed

lemma plotHours_collects:
  "plotHours g inputs offset fs acc = Inr sims \<Longrightarrow> k < length fs \<Longrightarrow> fs ! k = Some fc
   \<Longrightarrow> simulateHour g inputs (startHour inputs + (offset + int k)) fc = Inr (Some sim)
   \<Longrightarrow> sim \<in> set sims"
proof (induction fs arbitrary: offset acc k)
  case Nil
  then show ?case by simp
next
  case (Cons f fs)
  show ?case
  proof (cases k)
    case 0
    with Cons.prems have "plotHours g inputs (offset + 1) fs (acc @ [sim]) = Inr sims" by simp
    then have "\<exists>more. sims = (acc @ [sim]) @ more" by (rule plotHours_prefix)
    then show ?thesis by auto
  next
    case (Suc j)
    with Cons.prems have j: "j < length fs" "fs ! j = Some fc"
      and sim: "simulateHour g inputs (startHour inputs + ((offset + 1) + int j)) fc = Inr (Some sim)"
      by (simp_all add: algebra_simps)
    from Cons.prems(1) obtain acc' where "plotHours g inputs (offset + 1) fs acc' = Inr sims"
      by (cases f; cases "simulateHour g inputs (startHour inputs + offset) (the f)")
         (auto split: option.splits)
    then show ?thesis using j sim by (rule Cons.IH)
  qed
qed

lemma plotHours_returns:
  "(\<forall>k<length fs. \<forall>fc. fs ! k = Some fc \<longrightarrow>
       (\<exists>r. simulateHour g inputs (startHour inputs + (offset + int k)) fc = Inr r))
   \<Longrightarrow> \<exists>sims. plotHours g inputs offset fs acc = Inr sims"
proof (induction fs arbitrary: offset acc)
  case Nil
  then show ?case by simp
next
  case (Cons f fs)
  have rest: "\<forall>k<length fs. \<forall>fc. fs ! k = Some fc \<longrightarrow>
       (\<exists>r. simulateHour g inputs (startHour inputs + ((offset + 1) + int k)) fc = Inr r)"
  proof (intro allI impI)
    fix k fc assume "k < length fs" "fs ! k = Some fc"
    then have "Suc k < length (f # fs)" "(f # fs) ! Suc k = Some fc" by simp_all
    with Cons.prems obtain r where
      "simulateHour g inputs (startHour inputs + (offset + int (Suc k))) fc = Inr r" by blast
    then show "\<exists>r. simulateHour g inputs (startHour inputs + ((offset + 1) + int k)) fc = Inr r"
      by (simp add: algebra_simps)
  qed
  note IH = Cons.IH [OF rest]
  show ?case
  proof (cases f)
    case None
    then show ?thesis using IH [of acc] by simp
  next
    case (Some fc)
    with Cons.prems [rule_format, of 0 fc] obtain r where
      r: "simulateHour g inputs (startHour inputs + offset) fc = Inr r" by auto
    show ?thesis
    proof (cases r)
      case None
      with Some r show ?thesis using IH [of acc] by simp
    next
      case (Some sim)
      with \<open>f = Some fc\<close> r show ?thesis using IH [of "acc @ [sim]"] by simp
    qed
  qed
qed

lemma plotHours_results:
  "(\<forall>k<length fs. \<forall>fc. fs ! k = Some fc \<longrightarrow>
       (\<exists>r. simulateHour g inputs (startHour inputs + (offset + int k)) fc = Inr r))
   \<Longrightarrow> plotHours g inputs offset fs acc
       = Inr (acc @ concat (map (\<lambda>k. hourResult g inputs (offset + int k) (fs ! k))
                              [0..<length fs]))"
proof (induction fs arbitrary: offset acc)
  case Nil
  then show ?case by simp
next
  case (Cons f fs)
  have rest: "\<forall>k<length fs. \<forall>fc. fs ! k = Some fc \<longrightarrow>
       (\<exists>r. simulateHour g inputs (startHour inputs + ((offset + 1) + int k)) fc = Inr r)"
  proof (intro allI impI)
    fix k fc assume "k < length fs" "fs ! k = Some fc"
    then have "Suc k < length (f # fs)" "(f # fs) ! Suc k = Some fc" by simp_all
    with Cons.prems obtain r where
      "simulateHour g inputs (startHour inputs + (offset + int (Suc k))) fc = Inr r" by blast
    then show "\<exists>r. simulateHour g inputs (startHour inputs + ((offset + 1) + int k)) fc = Inr r"
      by (simp add: algebra_simps)
  qed
  note IH = Cons.IH [OF rest]
  have shift: "map (\<lambda>k. hourResult g inputs (offset + int k) ((f # fs) ! k)) [0..<length (f # fs)]
      = hourResult g inputs offset f
        # map (\<lambda>k. hourResult g inputs ((offset + 1) + int k) (fs ! k)) [0..<length fs]"
  proof -
    have "[0..<length (f # fs)] = 0 # map Suc [0..<length fs]"
      by (simp add: upt_conv_Cons map_Suc_upt del: upt_Suc)
    then show ?thesis by (simp add: comp_def algebra_simps)
  qed
  have step: "plotHours g inputs offset (f # fs) acc
      = plotHours g inputs (offset + 1) fs (acc @ hourResult g inputs offset f)"
  proof (cases f)
    case None
    then show ?thesis by (simp add: hourResult_def)
  next
    case (Some fc)
    with Cons.prems [rule_format, of 0 fc] obtain r where
      r: "simulateHour g inputs (startHour inputs + offset) fc = Inr r" by auto
    with Some show ?thesis by (cases r) (simp_all add: hourResult_def)
  qed
  show ?case unfolding step shift IH by simp
qed

lemma buildDescentList_windLevel:
  "buildDescentList windLevel 500 False (- 1) (Num 20) (Num 20)
     = Inr (Some (500, [\<lparr>stepAltitude = 500, descentRate = 20, stepWindSpeed = - 1,
                          stepWindDirection = - 1\<rparr>]))"
  by (simp add: buildDescentList_def windLevel_def findWindIndex_def
        getWindBandPercentage_def getAverageWindSpeed_def getAverageWindDirection_def
        newDescentData_def Let_def)

lemma apogeeOfHour_inputsEx: "apogeeOfHour g (inputsEx a) fc = (a, launchSiteEx)"
  by (simp add: apogeeOfHour_def inputsEx_def)

text \<open>
  C5. An hour whose apogee, after the weathercock adjustment if there is one, is above every
  wind sample, and an hour whose descent list has fewer than two steps, both give no result:
  the hour ends with \<^verbatim>\<open>continue\<close>, without an exception. The loop goes on with the remaining
  hours and the list of results as it was; and where none of the remaining hours throws, it
  returns that list followed by what each remaining hour gives, in their order.
\<close>

theorem skipped_hour_continues:
  assumes "(windData fc \<noteq> []
            \<and> (\<forall>s\<in>set (windData fc). altitude s < fst (apogeeOfHour g inputs fc)))
           \<or> (\<exists>a dl. buildDescentList (windData fc) (fst (apogeeOfHour g inputs fc))
                        (usingDualDeployoment inputs) (mainDeployAltitude inputs)
                        (Num (drogueDecentRate inputs)) (Num (mainDescentRate inputs))
                      = Inr (Some (a, dl))
                    \<and> length dl < 2)"
  shows "simulateHour g inputs hour fc = Inr None
         \<and> plotHours g inputs offset (Some fc # forecasts) simulationList
             = plotHours g inputs (offset + 1) forecasts simulationList
         \<and> ((\<forall>k<length forecasts. \<forall>later. forecasts ! k = Some later \<longrightarrow>
                (\<exists>r. simulateHour g inputs (startHour inputs + (offset + 1 + int k)) later
                       = Inr r))
             \<longrightarrow> plotHours g inputs offset (Some fc # forecasts) simulationList
                   = Inr (simulationList
                          @ concat (map (\<lambda>k. hourResult g inputs (offset + 1 + int k)
                                                (forecasts ! k))
                                      [0..<length forecasts])))"
proof -
  have skip: "simulateHour g inputs h fc = Inr None" for h
    using assms
  proof
    assume "windData fc \<noteq> []
            \<and> (\<forall>s\<in>set (windData fc). altitude s < fst (apogeeOfHour g inputs fc))"
    then have "buildDescentList (windData fc) (fst (apogeeOfHour g inputs fc))
                 (usingDualDeployoment inputs) (mainDeployAltitude inputs)
                 (Num (drogueDecentRate inputs)) (Num (mainDescentRate inputs)) = Inr None"
      by (simp add: buildDescentList_above)
    then show ?thesis
      by (simp add: simulateHour_def Let_def split_beta)
  next
    assume "\<exists>a dl. buildDescentList (windData fc) (fst (apogeeOfHour g inputs fc))
                        (usingDualDeployoment inputs) (mainDeployAltitude inputs)
                        (Num (drogueDecentRate inputs)) (Num (mainDescentRate inputs))
                      = Inr (Some (a, dl))
                    \<and> length dl < 2"
    then show ?thesis
      by (auto simp add: simulateHour_def Let_def split_beta)
  qed
  have step: "plotHours g inputs offset (Some fc # forecasts) simulationList
      = plotHours g inputs (offset + 1) forecasts simulationList"
    using skip [of "startHour inputs + offset"] by simp
  have rest: "plotHours g inputs (offset + 1) forecasts simulationList
                   = Inr (simulationList
                          @ concat (map (\<lambda>k. hourResult g inputs (offset + 1 + int k)
                                                (forecasts ! k))
                                      [0..<length forecasts]))"
    if "\<forall>k<length forecasts. \<forall>later. forecasts ! k = Some later \<longrightarrow>
                (\<exists>r. simulateHour g inputs (startHour inputs + (offset + 1 + int k)) later
                       = Inr r)"
    using that by (rule plotHours_results)
  from skip [of hour] step rest show ?thesis by simp
qed

theorem skipped_hour_continues_witness:
  "plotHours flatGeodesy (inputsEx 500) 0
     [Some (forecastEx windShallow), Some (forecastEx windRaised)] []
     = Inr [\<lparr>time = 10,
             launchPath =
               [\<lparr>pointAltitude = 0, location = launchSiteEx\<rparr>,
                \<lparr>pointAltitude = 500, location = launchSiteEx\<rparr>,
                \<lparr>pointAltitude = 100, location = launchSiteEx\<rparr>],
             elevation = 100\<rparr>]
   \<and> simulateHour flatGeodesy (inputsEx 500) 9 (forecastEx windShallow) = Inr None
   \<and> plotHours flatGeodesy (inputsEx 500) 0
       [Some (forecastEx windLevel), Some (forecastEx windRaised)] []
     = Inr [\<lparr>time = 10,
             launchPath =
               [\<lparr>pointAltitude = 0, location = launchSiteEx\<rparr>,
                \<lparr>pointAltitude = 500, location = launchSiteEx\<rparr>,
                \<lparr>pointAltitude = 100, location = launchSiteEx\<rparr>],
             elevation = 100\<rparr>]
   \<and> simulateHour flatGeodesy (inputsEx 500) 9 (forecastEx windLevel) = Inr None"
proof -
  have start: "startHour (inputsEx 500) = 9" by (simp add: inputsEx_def)
  have later: "\<forall>k<length [Some (forecastEx windRaised)]. \<forall>later.
      [Some (forecastEx windRaised)] ! k = Some later \<longrightarrow>
      (\<exists>r. simulateHour flatGeodesy (inputsEx 500)
             (startHour (inputsEx 500) + (0 + 1 + int k)) later = Inr r)"
    by (simp add: simulateHour_raisedList)
  have result: "concat (map (\<lambda>k. hourResult flatGeodesy (inputsEx 500) (0 + 1 + int k)
                                ([Some (forecastEx windRaised)] ! k))
                  [0..<length [Some (forecastEx windRaised)]])
      = [\<lparr>time = 10,
          launchPath =
            [\<lparr>pointAltitude = 0, location = launchSiteEx\<rparr>,
             \<lparr>pointAltitude = 500, location = launchSiteEx\<rparr>,
             \<lparr>pointAltitude = 100, location = launchSiteEx\<rparr>],
          elevation = 100\<rparr>]"
    by (simp add: hourResult_def simulateHour_raisedList start)
  have above: "windData (forecastEx windShallow) \<noteq> []
      \<and> (\<forall>s\<in>set (windData (forecastEx windShallow)).
            altitude s < fst (apogeeOfHour flatGeodesy (inputsEx 500) (forecastEx windShallow)))"
    unfolding apogeeOfHour_inputsEx by (simp add: forecastEx_def windShallow_def)
  have short: "\<exists>a dl. buildDescentList (windData (forecastEx windLevel))
        (fst (apogeeOfHour flatGeodesy (inputsEx 500) (forecastEx windLevel)))
        (usingDualDeployoment (inputsEx 500)) (mainDeployAltitude (inputsEx 500))
        (Num (drogueDecentRate (inputsEx 500))) (Num (mainDescentRate (inputsEx 500)))
      = Inr (Some (a, dl)) \<and> length dl < 2"
    unfolding apogeeOfHour_inputsEx using buildDescentList_windLevel
    by (simp add: forecastEx_def inputsEx_def)
  from skipped_hour_continues [of "forecastEx windShallow" flatGeodesy "inputsEx 500" 9 0
      "[Some (forecastEx windRaised)]" "[]"] above later
  have first: "simulateHour flatGeodesy (inputsEx 500) 9 (forecastEx windShallow) = Inr None
      \<and> plotHours flatGeodesy (inputsEx 500) 0
          [Some (forecastEx windShallow), Some (forecastEx windRaised)] []
        = Inr ([] @ concat (map (\<lambda>k. hourResult flatGeodesy (inputsEx 500) (0 + 1 + int k)
                                ([Some (forecastEx windRaised)] ! k))
                  [0..<length [Some (forecastEx windRaised)]]))"
    by blast
  from skipped_hour_continues [of "forecastEx windLevel" flatGeodesy "inputsEx 500" 9 0
      "[Some (forecastEx windRaised)]" "[]"] short later
  have second: "simulateHour flatGeodesy (inputsEx 500) 9 (forecastEx windLevel) = Inr None
      \<and> plotHours flatGeodesy (inputsEx 500) 0
          [Some (forecastEx windLevel), Some (forecastEx windRaised)] []
        = Inr ([] @ concat (map (\<lambda>k. hourResult flatGeodesy (inputsEx 500) (0 + 1 + int k)
                                ([Some (forecastEx windRaised)] ! k))
                  [0..<length [Some (forecastEx windRaised)]]))"
    by blast
  from first second show ?thesis unfolding result by simp
qed

end
